theory Spec2Isabelle
  imports Complex_Main
begin

section \<open>IPTV stream management: the data layer\<close>

text \<open>
  A model of the data layer of the dashboard (the module the routes import as
  \<^verbatim>\<open>@/lib/data\<close>) together with the record types it uses.  Everything outside
  the module is a parameter: the operating system (the platform, what a shell command
  returns or whether it throws, what it does to the process table, whether a spawn
  throws), and \<^verbatim>\<open>JSON.parse\<close>.  The data directory is taken to be writable, so
  the synchronous writes of the module do not throw; reads and shell commands may.
\<close>

subsection \<open>Strings as JavaScript handles them\<close>

text \<open>Characters are 8-bit here; the white space of \<^verbatim>\<open>trim\<close> and of the
  regular expression class \<^verbatim>\<open>\s\<close> is tab, line feed, vertical tab, form feed,
  carriage return, space and no-break space.\<close>

definition is_ws :: "char \<Rightarrow> bool" where
  "is_ws c = (c = CHR 0x09 \<or> c = CHR 0x0A \<or> c = CHR 0x0B \<or> c = CHR 0x0C \<or> c = CHR 0x0D
              \<or> c = CHR 0x20 \<or> c = CHR 0xA0)"

definition is_digit :: "char \<Rightarrow> bool" where
  "is_digit c = (c \<in> set ''0123456789'')"

definition trim :: "string \<Rightarrow> string" where
  "trim s = rev (dropWhile is_ws (rev (dropWhile is_ws s)))"

text \<open>\<^verbatim>\<open>s.split(c)\<close> for a one-character separator: never empty, \<^verbatim>\<open>''.split(c)\<close>
  is the list holding the empty string.\<close>

fun split_on :: "char \<Rightarrow> string \<Rightarrow> string list" where
  "split_on c [] = [Nil]"
| "split_on c (x # xs) =
     (if x = c then [] # split_on c xs
      else (case split_on c xs of [] \<Rightarrow> [x] # [] | h # t \<Rightarrow> (x # h) # t))"

text \<open>\<^verbatim>\<open>ls.join(c)\<close>.\<close>

fun join_with :: "char \<Rightarrow> string list \<Rightarrow> string" where
  "join_with c [] = []"
| "join_with c [l] = l"
| "join_with c (l # m # ls) = l @ c # join_with c (m # ls)"

text \<open>Decimal rendering of a number inside a template literal.\<close>

fun digits_of :: "nat \<Rightarrow> string" where
  "digits_of n = (if n < 10 then [char_of (48 + n)] else digits_of (n div 10) @ [char_of (48 + n mod 10)])"

definition show_int :: "int \<Rightarrow> string" where
  "show_int i = (if i < 0 then CHR ''-'' # digits_of (nat (- i)) else digits_of (nat i))"

subsection \<open>Records of the module\<close>

record IPTVStream =
  id_str :: string
  name :: string
  key :: string
  link1 :: string
  rtmp :: string
  category1 :: string
  bitrate :: string
  resolution :: string
  active :: bool
  pid :: "string option"
  createdAt :: int
  updatedAt :: int

datatype LogType = Info | Warning | Error | Success

record LogEntry =
  timestamp :: int
  message :: string
  log_type :: LogType

subsection \<open>The world outside the module\<close>

datatype platform = Win32 | Darwin | Linux | OtherPlatform

datatype exn = Exn string

text \<open>A live process: the command and arguments it was spawned with, and the stream
  whose start spawned it (a ghost field; the code keeps no such record).\<close>

record proc =
  owner :: string
  command :: string
  args :: "string list"

text \<open>The environment fixes what the operating system answers.  \<open>execSync\<close> maps a
  shell command and the process table to the output (or the exception thrown) and the
  process table afterwards.  The \<open>os_\<close> fields are what Node's \<^verbatim>\<open>os\<close> module
  reports, and \<open>Date_local\<close> is \<^verbatim>\<open>new Date(y, m, d, h, min, s).getTime()\<close>, which
  depends on the time zone of the host.\<close>

record env =
  platform :: platform
  execSync :: "string \<Rightarrow> proc list \<Rightarrow> (exn + string) \<times> proc list"
  spawn_throws :: "string \<Rightarrow> string list \<Rightarrow> exn option"
  read_throws :: "string \<Rightarrow> exn option"
  os_loadavg :: rat
  os_totalmem :: rat
  os_freemem :: rat
  os_uptime :: rat
  Date_local :: "int \<Rightarrow> int \<Rightarrow> int \<Rightarrow> int \<Rightarrow> int \<Rightarrow> int \<Rightarrow> int"
  STREAMS_FILE :: string
  STREAM_LOGS_DIR :: string
  STREAM_SCRIPTS_DIR :: string

text \<open>What the module does to the world outside, as events: a shell command run, a
  process spawned, a file written, appended to, made executable or deleted.\<close>

datatype event =
    Exec string
  | Spawn string "string list"
  | Write string
  | Append string
  | Chmod string
  | Unlink string

text \<open>The state the module reads and writes: the streams file, the per-stream log and
  script files (keyed by stream id; no entry means no file), the process table, the
  clock read by \<^verbatim>\<open>Date.now()\<close>, and the events so far, oldest first (a ghost
  history; the code keeps no such record).\<close>

record world =
  streams :: "IPTVStream list"
  logs :: "string \<rightharpoonup> string"
  scripts :: "string \<rightharpoonup> string"
  procs :: "proc list"
  now :: int
  history :: "event list"

definition path_join :: "env \<Rightarrow> string \<Rightarrow> string \<Rightarrow> string" where
  "path_join e dir file = dir @ (if platform e = Win32 then [CHR 0x5C] else ''/'') @ file"

definition logPath :: "env \<Rightarrow> string \<Rightarrow> string" where
  "logPath e i = path_join e (STREAM_LOGS_DIR e) (i @ ''.log'')"

definition scriptPath :: "env \<Rightarrow> string \<Rightarrow> string" where
  "scriptPath e i = path_join e (STREAM_SCRIPTS_DIR e) (i @ ''.sh'')"

text \<open>\<^verbatim>\<open>fs.readFileSync(logFile, 'utf8')\<close> for the log of stream \<open>i\<close>.\<close>

definition readLogFile :: "env \<Rightarrow> world \<Rightarrow> string \<Rightarrow> exn + string" where
  "readLogFile e w i =
     (case read_throws e (logPath e i) of
        Some x \<Rightarrow> Inl x
      | None \<Rightarrow> (case logs w i of None \<Rightarrow> Inl (Exn ''ENOENT'') | Some d \<Rightarrow> Inr d))"

subsection \<open>Log retrieval\<close>

text \<open>The loop of \<^verbatim>\<open>getStreamLogs\<close>: from the last line down to the first, while
  fewer than \<open>limit\<close> entries are collected; a line that \<^verbatim>\<open>JSON.parse\<close> rejects
  is skipped by the inner catch.\<close>

function logs_loop :: "(string \<Rightarrow> 'a option) \<Rightarrow> string list \<Rightarrow> int \<Rightarrow> int \<Rightarrow> 'a list \<Rightarrow> 'a list" where
  "logs_loop JSON_parse lines limit i acc =
     (if 0 \<le> i \<and> int (length acc) < limit then
        (case JSON_parse (lines ! nat i) of
           Some l \<Rightarrow> logs_loop JSON_parse lines limit (i - 1) (acc @ [l])
         | None \<Rightarrow> logs_loop JSON_parse lines limit (i - 1) acc)
      else acc)"
  by pat_completeness auto
termination
  by (relation "measure (\<lambda>(p, ls, lim, i, acc). nat (i + 1))") auto

declare logs_loop.simps [simp del]

definition nonblank_lines :: "string \<Rightarrow> string list" where
  "nonblank_lines data = filter (\<lambda>line. trim line \<noteq> []) (split_on (CHR 0x0A) data)"

definition getStreamLogs :: "env \<Rightarrow> (string \<Rightarrow> 'a option) \<Rightarrow> world \<Rightarrow> string \<Rightarrow> int \<Rightarrow> 'a list" where
  "getStreamLogs e JSON_parse w i limit =
     (if logs w i = None then []
      else (case readLogFile e w i of
              Inl x \<Rightarrow> []
            | Inr data \<Rightarrow>
                (let lines = nonblank_lines data
                 in logs_loop JSON_parse lines limit (int (length lines) - 1) [])))"

text \<open>The records of a stream's log, oldest first: the lines of the file that are not
  blank and that \<^verbatim>\<open>JSON.parse\<close> accepts.  A missing or unreadable file has none.\<close>

definition log_records :: "env \<Rightarrow> (string \<Rightarrow> 'a option) \<Rightarrow> world \<Rightarrow> string \<Rightarrow> 'a list" where
  "log_records e JSON_parse w i =
     (case readLogFile e w i of
        Inl x \<Rightarrow> []
      | Inr data \<Rightarrow> List.map_filter JSON_parse (nonblank_lines data))"

subsection \<open>Writing the log and the start script\<close>

abbreviation (input) dq :: char where "dq \<equiv> CHR 0x22"
abbreviation (input) bsl :: char where "bsl \<equiv> CHR 0x5C"

definition hex_digit :: "nat \<Rightarrow> char" where
  "hex_digit n = (''0123456789abcdef'') ! (n mod 16)"

text \<open>The escaping \<^verbatim>\<open>JSON.stringify\<close> applies inside a string.\<close>

definition json_escape_char :: "char \<Rightarrow> string" where
  "json_escape_char c =
     (if c = dq then [bsl, dq]
      else if c = bsl then [bsl, bsl]
      else if c = CHR 0x08 then [bsl, CHR ''b'']
      else if c = CHR 0x09 then [bsl, CHR ''t'']
      else if c = CHR 0x0A then [bsl, CHR ''n'']
      else if c = CHR 0x0C then [bsl, CHR ''f'']
      else if c = CHR 0x0D then [bsl, CHR ''r'']
      else if of_char c < (32::nat) then
        [bsl, CHR ''u'', CHR ''0'', CHR ''0'', hex_digit (of_char c div 16), hex_digit (of_char c)]
      else [c])"

definition json_string :: "string \<Rightarrow> string" where
  "json_string s = dq # concat (map json_escape_char s) @ [dq]"

definition type_name :: "LogType \<Rightarrow> string" where
  "type_name t = (case t of Info \<Rightarrow> ''info'' | Warning \<Rightarrow> ''warning''
                  | Error \<Rightarrow> ''error'' | Success \<Rightarrow> ''success'')"

text \<open>\<^verbatim>\<open>JSON.stringify(entry)\<close> for a log entry.\<close>

definition JSON_stringify :: "LogEntry \<Rightarrow> string" where
  "JSON_stringify en =
     ''{'' @ json_string ''timestamp'' @ '':'' @ show_int (timestamp en) @ '','' @
     json_string ''message'' @ '':'' @ json_string (message en) @ '','' @
     json_string ''type'' @ '':'' @ json_string (type_name (log_type en)) @ ''}''"

definition appendToLog :: "env \<Rightarrow> string \<Rightarrow> LogEntry \<Rightarrow> world \<Rightarrow> world" where
  "appendToLog e i en w =
     (let w1 = (if logs w i = None
                then w\<lparr>logs := (logs w)(i \<mapsto> []), history := history w @ [Write (logPath e i)]\<rparr>
                else w)
      in w1\<lparr>logs := (logs w1)(i \<mapsto> the (logs w1 i) @ JSON_stringify en @ [CHR 0x0A]),
             history := history w1 @ [Append (logPath e i)]\<rparr>)"

definition quoted :: "string \<Rightarrow> string" where
  "quoted s = dq # s @ [dq]"

definition scriptContent :: "env \<Rightarrow> IPTVStream \<Rightarrow> string" where
  "scriptContent e stream = join_with (CHR 0x0A)
     [''#!/bin/bash'',
      ''log_file='' @ quoted (path_join e (STREAM_LOGS_DIR e) (id_str stream @ ''.log'')),
      ''input_url='' @ quoted (link1 stream),
      ''rtmp_url='' @ quoted (rtmp stream @ ''/'' @ key stream),
      ''bitrate='' @ quoted (bitrate stream),
      ''resolution='' @ quoted (resolution stream),
      [],
      ''while true; do'',
      ''  ffmpeg -re -i '' @ quoted ''$input_url'' @
        '' -vcodec libx264 -preset veryfast -tune zerolatency -s '' @ quoted ''$resolution'' @ '' '' @ [bsl],
      ''    -b:v '' @ quoted ''$bitrate'' @ '' -maxrate '' @ quoted ''$bitrate'' @
        '' -acodec aac -b:a 56k -sc_threshold 0 -g 48 '' @ [bsl],
      ''    -keyint_min 48 -x264opts no-scenecut -ar 48000 -bufsize 1600k -ab 96k '' @ [bsl],
      ''    -f flv '' @ quoted ''$rtmp_url'' @ '' >> '' @ quoted ''$log_file'' @ '' 2>&1'',
      ''  '',
      ''  # Wait a bit before retrying to avoid CPU overload on constant failures'',
      ''  sleep 1'',
      ''done'']"

definition createStreamScript :: "env \<Rightarrow> IPTVStream \<Rightarrow> world \<Rightarrow> world" where
  "createStreamScript e stream w =
     w\<lparr>scripts := (scripts w)(id_str stream \<mapsto> scriptContent e stream),
       history := history w @ [Write (scriptPath e (id_str stream)), Chmod (scriptPath e (id_str stream))]\<rparr>"

subsection \<open>Stream management\<close>

text \<open>A streams file that cannot be read counts as an empty list.\<close>

definition getAllStreams :: "env \<Rightarrow> world \<Rightarrow> IPTVStream list" where
  "getAllStreams e w = (case read_throws e (STREAMS_FILE e) of Some x \<Rightarrow> [] | None \<Rightarrow> streams w)"

definition getStreamById :: "env \<Rightarrow> world \<Rightarrow> string \<Rightarrow> IPTVStream option" where
  "getStreamById e w i = find (\<lambda>stream. id_str stream = i) (getAllStreams e w)"

text \<open>\<^verbatim>\<open>findIndex\<close>, with \<open>None\<close> for -1.\<close>

fun findIndex :: "('a \<Rightarrow> bool) \<Rightarrow> 'a list \<Rightarrow> nat option" where
  "findIndex P [] = None"
| "findIndex P (x # xs) = (if P x then Some 0 else map_option Suc (findIndex P xs))"

text \<open>\<^verbatim>\<open>Partial<IPTVStream>\<close>: each field present or absent.\<close>

record Partial_IPTVStream =
  id_opt :: "string option"
  name_opt :: "string option"
  key_opt :: "string option"
  link1_opt :: "string option"
  rtmp_opt :: "string option"
  category1_opt :: "string option"
  bitrate_opt :: "string option"
  resolution_opt :: "string option"
  active_opt :: "bool option"
  pid_opt :: "string option"
  createdAt_opt :: "int option"
  updatedAt_opt :: "int option"

definition no_fields :: Partial_IPTVStream where
  "no_fields = \<lparr>id_opt = None, name_opt = None, key_opt = None, link1_opt = None,
     rtmp_opt = None, category1_opt = None, bitrate_opt = None, resolution_opt = None,
     active_opt = None, pid_opt = None, createdAt_opt = None, updatedAt_opt = None\<rparr>"

definition or_else :: "'a option \<Rightarrow> 'a \<Rightarrow> 'a" where
  "or_else v d = (case v of Some x \<Rightarrow> x | None \<Rightarrow> d)"

text \<open>The object spread \<^verbatim>\<open>{...stream, ...streamData}\<close>: a field present in the
  payload replaces the stream's.\<close>

definition spread :: "IPTVStream \<Rightarrow> Partial_IPTVStream \<Rightarrow> IPTVStream" where
  "spread stream d =
     \<lparr>id_str = or_else (id_opt d) (id_str stream),
      name = or_else (name_opt d) (name stream),
      key = or_else (key_opt d) (key stream),
      link1 = or_else (link1_opt d) (link1 stream),
      rtmp = or_else (rtmp_opt d) (rtmp stream),
      category1 = or_else (category1_opt d) (category1 stream),
      bitrate = or_else (bitrate_opt d) (bitrate stream),
      resolution = or_else (resolution_opt d) (resolution stream),
      active = or_else (active_opt d) (active stream),
      pid = (case pid_opt d of Some v \<Rightarrow> Some v | None \<Rightarrow> pid stream),
      createdAt = or_else (createdAt_opt d) (createdAt stream),
      updatedAt = or_else (updatedAt_opt d) (updatedAt stream)\<rparr>"

text \<open>A string field of the payload is truthy when present and not empty.\<close>

definition truthy :: "string option \<Rightarrow> bool" where
  "truthy v = (case v of Some s \<Rightarrow> s \<noteq> [] | None \<Rightarrow> False)"

definition updateStream :: "env \<Rightarrow> string \<Rightarrow> Partial_IPTVStream \<Rightarrow> world \<Rightarrow> IPTVStream option \<times> world" where
  "updateStream e i streamData w =
     (let all_streams = getAllStreams e w
      in case findIndex (\<lambda>stream. id_str stream = i) all_streams of
           None \<Rightarrow> (None, w)
         | Some index \<Rightarrow>
             (let updatedStream = (spread (all_streams ! index) streamData)\<lparr>updatedAt := now w\<rparr>;
                  w1 = w\<lparr>streams := all_streams[index := updatedStream],
                         history := history w @ [Write (STREAMS_FILE e)]\<rparr>;
                  w2 = (if truthy (link1_opt streamData) \<or> truthy (rtmp_opt streamData)
                           \<or> truthy (key_opt streamData) \<or> truthy (bitrate_opt streamData)
                           \<or> truthy (resolution_opt streamData)
                        then createStreamScript e updatedStream w1 else w1)
              in (Some updatedStream, w2)))"

subsection \<open>Stream operation\<close>

text \<open>A shell command run through \<^verbatim>\<open>execSync\<close>: it enters the history, and the
  process table becomes what the environment says.\<close>

definition exec :: "env \<Rightarrow> string \<Rightarrow> world \<Rightarrow> (exn + string) \<times> world" where
  "exec e cmd w =
     (case execSync e cmd (procs w) of
        (r, ps) \<Rightarrow> (r, w\<lparr>procs := ps, history := history w @ [Exec cmd]\<rparr>))"

text \<open>\<^verbatim>\<open>spawn(cmd, args, {detached: true, ...})\<close> followed by \<^verbatim>\<open>child.unref()\<close>:
  a new process joins the table, unless the spawn throws.  What the process does from
  then on (it writes the transcoder's output to the stream's log, and it may exit) is not
  followed.\<close>

definition spawn :: "env \<Rightarrow> string \<Rightarrow> string \<Rightarrow> string list \<Rightarrow> world \<Rightarrow> (exn \<times> world) + world" where
  "spawn e own cmd as w =
     (case spawn_throws e cmd as of
        Some x \<Rightarrow> Inl (x, w)
      | None \<Rightarrow> Inr (w\<lparr>procs := procs w @ [\<lparr>owner = own, command = cmd, args = as\<rparr>],
                       history := history w @ [Spawn cmd as]\<rparr>))"

definition exn_text :: "exn \<Rightarrow> string" where
  "exn_text x = (case x of Exn m \<Rightarrow> m)"

definition ffmpegCmd :: "IPTVStream \<Rightarrow> string" where
  "ffmpegCmd stream =
     ''ffmpeg -re -i '' @ quoted (link1 stream) @
     '' -vcodec libx264 -preset veryfast -tune zerolatency -s '' @ resolution stream @
     '' -b:v '' @ bitrate stream @ '' -maxrate '' @ bitrate stream @
     '' -acodec aac -b:a 56k -sc_threshold 0 -g 48 -keyint_min 48 -x264opts no-scenecut'' @
     '' -ar 48000 -bufsize 1600k -ab 96k -f flv '' @ quoted (rtmp stream @ ''/'' @ key stream)"

text \<open>The try block of \<^verbatim>\<open>startStream\<close> up to the spawn.\<close>

definition launch :: "env \<Rightarrow> string \<Rightarrow> IPTVStream \<Rightarrow> world \<Rightarrow> (exn \<times> world) + world" where
  "launch e i stream w =
     (if platform e = Win32 then
        spawn e i ''cmd.exe''
          [''/c'', ''start'', ''/b'', ''cmd'', ''/c'', ffmpegCmd stream @ '' > '' @ logPath e i @ '' 2>&1''] w
      else spawn e i ''sh'' [scriptPath e i, link1 stream, rtmp stream] w)"

definition startStream :: "env \<Rightarrow> string \<Rightarrow> world \<Rightarrow> bool \<times> world" where
  "startStream e i w =
     (case getStreamById e w i of
        None \<Rightarrow> (False, w)
      | Some stream \<Rightarrow>
          if active stream then (True, w)
          else (case launch e i stream w of
                  Inr w1 \<Rightarrow>
                    (let w2 = snd (updateStream e i (no_fields\<lparr>active_opt := Some True\<rparr>) w1);
                         w3 = appendToLog e i \<lparr>timestamp = now w2, message = ''Stream started'',
                                             log_type = Info\<rparr> w2
                     in (True, w3))
                | Inl (x, w1) \<Rightarrow>
                    (False, appendToLog e i \<lparr>timestamp = now w1,
                               message = ''Failed to start stream: '' @ exn_text x,
                               log_type = Error\<rparr> w1)))"

definition pkillCmd :: "IPTVStream \<Rightarrow> string" where
  "pkillCmd stream = ''pkill -f '' @ quoted (link1 stream)"

definition taskkillCmd :: "string \<Rightarrow> IPTVStream \<Rightarrow> string" where
  "taskkillCmd what stream = ''taskkill /F /FI '' @ quoted (what @ '' eq *'' @ link1 stream @ ''*'') @ '' /T''"

text \<open>The try block of \<^verbatim>\<open>stopStream\<close> up to the last kill command: the first command
  that throws ends it.\<close>

definition killCommands :: "env \<Rightarrow> IPTVStream \<Rightarrow> world \<Rightarrow> (exn \<times> world) + world" where
  "killCommands e stream w =
     (if platform e = Win32 then
        (case exec e (taskkillCmd ''WINDOWTITLE'' stream) w of
           (Inl x, w1) \<Rightarrow> Inl (x, w1)
         | (Inr out, w1) \<Rightarrow>
             (case exec e (taskkillCmd ''COMMANDLINE'' stream) w1 of
                (Inl x, w2) \<Rightarrow> Inl (x, w2)
              | (Inr out2, w2) \<Rightarrow> Inr w2))
      else
        (case exec e (pkillCmd stream) w of
           (Inl x, w1) \<Rightarrow> Inl (x, w1)
         | (Inr out, w1) \<Rightarrow> Inr w1))"

definition stopStream :: "env \<Rightarrow> string \<Rightarrow> world \<Rightarrow> bool \<times> world" where
  "stopStream e i w =
     (case getStreamById e w i of
        None \<Rightarrow> (False, w)
      | Some stream \<Rightarrow>
          (case killCommands e stream w of
             Inr w1 \<Rightarrow>
               (let w2 = snd (updateStream e i (no_fields\<lparr>active_opt := Some False\<rparr>) w1);
                    w3 = appendToLog e i \<lparr>timestamp = now w2, message = ''Stream stopped'',
                                        log_type = Info\<rparr> w2
                in (True, w3))
           | Inl (x, w1) \<Rightarrow>
               (let w2 = appendToLog e i \<lparr>timestamp = now w1,
                            message = ''Error while stopping stream: '' @ exn_text x,
                            log_type = Warning\<rparr> w1;
                    w3 = snd (updateStream e i (no_fields\<lparr>active_opt := Some False\<rparr>) w2)
                in (True, w3))))"


definition deleteStream :: "env \<Rightarrow> string \<Rightarrow> world \<Rightarrow> bool \<times> world" where
  "deleteStream e i w =
     (let w1 = snd (stopStream e i w);
          all_streams = getAllStreams e w1;
          filteredStreams = filter (\<lambda>stream. id_str stream \<noteq> i) all_streams
      in if length filteredStreams = length all_streams then (False, w1)
         else
           (let w2 = w1\<lparr>streams := filteredStreams,
                       history := history w1 @ [Write (STREAMS_FILE e)]\<rparr>;
                w3 = (if scripts w2 i \<noteq> None
                      then w2\<lparr>scripts := (scripts w2)(i := None),
                             history := history w2 @ [Unlink (scriptPath e i)]\<rparr>
                      else w2);
                w4 = (if logs w3 i \<noteq> None
                      then w3\<lparr>logs := (logs w3)(i := None),
                             history := history w3 @ [Unlink (logPath e i)]\<rparr>
                      else w3)
            in (True, w4)))"

subsection \<open>The control route\<close>



subsection \<open>Scraping command output\<close>

text \<open>A probe is a shell command run for its output.  The process table it leaves is
  not followed.\<close>

definition probe :: "env \<Rightarrow> world \<Rightarrow> string \<Rightarrow> exn + string" where
  "probe e w cmd = fst (execSync e cmd (procs w))"

text \<open>\<^verbatim>\<open>try { ... } catch\<close> on a computation that returns or throws.\<close>

definition try_catch :: "exn + 'a \<Rightarrow> (exn \<Rightarrow> exn + 'a) \<Rightarrow> exn + 'a" where
  "try_catch body handler = (case body of Inl x \<Rightarrow> handler x | Inr v \<Rightarrow> Inr v)"

text \<open>An unanchored regular expression finds its leftmost match: \<open>search m\<close> tries
  the matcher \<open>m\<close> at every position from the left.  Each matcher below follows one
  regular expression of the source, given in its comment; in all of them a greedy
  class is followed by a character outside the class, so the greedy match is the only
  one.\<close>

fun search :: "(string \<Rightarrow> 'a option) \<Rightarrow> string \<Rightarrow> 'a option" where
  "search m [] = m []"
| "search m (c # cs) = (case m (c # cs) of Some r \<Rightarrow> Some r | None \<Rightarrow> search m cs)"

definition strip_prefix :: "string \<Rightarrow> string \<Rightarrow> string option" where
  "strip_prefix p s = (if take (length p) s = p then Some (drop (length p) s) else None)"

definition is_digit_or_dot :: "char \<Rightarrow> bool" where
  "is_digit_or_dot c = (is_digit c \<or> c = CHR ''.'')"

text \<open>\<^verbatim>\<open>\d+\<close> at the start.\<close>

definition digits_at :: "string \<Rightarrow> string option" where
  "digits_at s = (let d = takeWhile is_digit s in if d = [] then None else Some d)"

text \<open>\<^verbatim>\<open>lit(\d+)\<close> at the start, for a literal \<open>lit\<close>.\<close>

definition lit_digits_at :: "string \<Rightarrow> string \<Rightarrow> string option" where
  "lit_digits_at lit s = (case strip_prefix lit s of None \<Rightarrow> None | Some r \<Rightarrow> digits_at r)"

text \<open>\<^verbatim>\<open>lit\s+(\d+)\<close> at the start.\<close>

definition lit_ws_digits_at :: "string \<Rightarrow> string \<Rightarrow> string option" where
  "lit_ws_digits_at lit s =
     (case strip_prefix lit s of
        None \<Rightarrow> None
      | Some r \<Rightarrow> if takeWhile is_ws r = [] then None else digits_at (dropWhile is_ws r))"

text \<open>\<^verbatim>\<open>bitrate=\s*([0-9.]+)kbits\/s\<close> at the start.\<close>

definition bitrate_at :: "string \<Rightarrow> string option" where
  "bitrate_at s =
     (case strip_prefix ''bitrate='' s of
        None \<Rightarrow> None
      | Some r \<Rightarrow>
          (let r1 = dropWhile is_ws r; d = takeWhile is_digit_or_dot r1
           in if d \<noteq> [] \<and> strip_prefix ''kbits/s'' (dropWhile is_digit_or_dot r1) \<noteq> None
              then Some d else None))"

text \<open>\<^verbatim>\<open>fps=\s*([0-9.]+)\<close> at the start.\<close>

definition fps_at :: "string \<Rightarrow> string option" where
  "fps_at s =
     (case strip_prefix ''fps='' s of
        None \<Rightarrow> None
      | Some r \<Rightarrow>
          (let d = takeWhile is_digit_or_dot (dropWhile is_ws r)
           in if d \<noteq> [] then Some d else None))"

text \<open>\<^verbatim>\<open>(\d+)\s*$\<close> at the start, without the \<^verbatim>\<open>m\<close> flag: digits, then white space up
  to the end of the text.\<close>

definition digits_to_end_at :: "string \<Rightarrow> string option" where
  "digits_to_end_at s =
     (let d = takeWhile is_digit s
      in if d \<noteq> [] \<and> dropWhile is_ws (dropWhile is_digit s) = [] then Some d else None)"

text \<open>\<^verbatim>\<open>(\d+)\s*$\<close> at the start, with the \<^verbatim>\<open>m\<close> flag: digits, then white space up
  to the end of the text or up to a line terminator (a line feed or a carriage return,
  themselves white space).\<close>

definition digits_to_eol_at :: "string \<Rightarrow> string option" where
  "digits_to_eol_at s =
     (let d = takeWhile is_digit s; r = dropWhile is_digit s
      in if d \<noteq> [] \<and> (dropWhile is_ws r = [] \<or> CHR 0x0A \<in> set (takeWhile is_ws r)
                       \<or> CHR 0x0D \<in> set (takeWhile is_ws r))
         then Some d else None)"

text \<open>\<^verbatim>\<open>(\d{14})\<close> at the start.\<close>

definition digits14_at :: "string \<Rightarrow> string option" where
  "digits14_at s =
     (if length (takeWhile is_digit (take 14 s)) = 14 then Some (take 14 s) else None)"

text \<open>\<^verbatim>\<open>(\d+\.\d+)%\s+user\<close> at the start.\<close>

definition cpu_user_at :: "string \<Rightarrow> string option" where
  "cpu_user_at s =
     (let a = takeWhile is_digit s; r = dropWhile is_digit s
      in case r of
           [] \<Rightarrow> None
         | c # r1 \<Rightarrow>
             (let b = takeWhile is_digit r1; r2 = dropWhile is_digit r1
              in if a \<noteq> [] \<and> c = CHR ''.'' \<and> b \<noteq> [] then
                   (case r2 of
                      [] \<Rightarrow> None
                    | p # r3 \<Rightarrow>
                        if p = CHR ''%'' \<and> takeWhile is_ws r3 \<noteq> []
                           \<and> strip_prefix ''user'' (dropWhile is_ws r3) \<noteq> None
                        then Some (a @ ''.'' @ b) else None)
                 else None))"

text \<open>\<^verbatim>\<open>Mem:\s+(\d+)\s+(\d+)\s+(\d+)\<close> at the start.\<close>

definition mem_line_at :: "string \<Rightarrow> (string \<times> string \<times> string) option" where
  "mem_line_at s =
     (case strip_prefix ''Mem:'' s of
        None \<Rightarrow> None
      | Some r \<Rightarrow>
          (let a = takeWhile is_digit (dropWhile is_ws r);
               r1 = dropWhile is_digit (dropWhile is_ws r);
               b = takeWhile is_digit (dropWhile is_ws r1);
               r2 = dropWhile is_digit (dropWhile is_ws r1);
               c = takeWhile is_digit (dropWhile is_ws r2)
           in if takeWhile is_ws r \<noteq> [] \<and> a \<noteq> [] \<and> takeWhile is_ws r1 \<noteq> [] \<and> b \<noteq> []
                 \<and> takeWhile is_ws r2 \<noteq> [] \<and> c \<noteq> []
              then Some (a, b, c) else None))"

text \<open>\<^verbatim>\<open>\d+X\<close> at the start, for a character \<open>X\<close>; the match includes it.\<close>

definition digits_then_at :: "char \<Rightarrow> string \<Rightarrow> string option" where
  "digits_then_at x s =
     (let d = takeWhile is_digit s
      in if d \<noteq> [] \<and> take 1 (dropWhile is_digit s) = [x] then Some (d @ [x]) else None)"

text \<open>\<^verbatim>\<open>s.split(/\s+/)\<close>: the pieces between the runs of white space; a text that
  starts or ends with white space gives an empty first or last piece.\<close>

function split_ws_from :: "string \<Rightarrow> string \<Rightarrow> string list" where
  "split_ws_from cur [] = [rev cur]"
| "split_ws_from cur (c # cs) =
     (if is_ws c then rev cur # split_ws_from [] (dropWhile is_ws cs)
      else split_ws_from (c # cur) cs)"
  by pat_completeness auto
termination
  by (relation "measure (\<lambda>(cur, s). length s)") (auto simp: length_dropWhile_le le_imp_less_Suc)

definition split_ws :: "string \<Rightarrow> string list" where
  "split_ws s = split_ws_from [] s"

text \<open>\<^verbatim>\<open>xs[i]\<close>, with \<open>None\<close> for \<^verbatim>\<open>undefined\<close>.\<close>

definition nth_opt :: "'a list \<Rightarrow> nat \<Rightarrow> 'a option" where
  "nth_opt xs n = (if n < length xs then Some (xs ! n) else None)"

text \<open>A string, or \<^verbatim>\<open>undefined\<close>, inside a template literal.\<close>

definition in_template :: "string option \<Rightarrow> string" where
  "in_template v = (case v of Some s \<Rightarrow> s | None \<Rightarrow> ''undefined'')"

text \<open>The value of a run of decimal digits.\<close>

definition digit_val :: "char \<Rightarrow> nat" where
  "digit_val c = of_char c - 48"

definition dec :: "string \<Rightarrow> nat" where
  "dec s = foldl (\<lambda>n c. 10 * n + digit_val c) 0 s"

definition is_hex_digit :: "char \<Rightarrow> bool" where
  "is_hex_digit c = (c \<in> set ''0123456789abcdefABCDEF'')"

definition hex_val :: "char \<Rightarrow> nat" where
  "hex_val c =
     (if is_digit c then of_char c - 48
      else if c \<in> set ''abcdef'' then of_char c - 87
      else of_char c - 55)"

text \<open>\<^verbatim>\<open>parseInt(s)\<close>, with \<open>None\<close> for \<^verbatim>\<open>NaN\<close>: leading white space, a sign, a
  \<^verbatim>\<open>0x\<close> prefix for base 16, then the longest run of digits.  Numbers are exact
  integers here; the code's are doubles.\<close>

definition parseInt :: "string option \<Rightarrow> int option" where
  "parseInt v =
     (case v of
        None \<Rightarrow> None
      | Some s \<Rightarrow>
          (let s1 = dropWhile is_ws s;
               neg = (take 1 s1 = ''-'');
               s2 = (if take 1 s1 = ''-'' \<or> take 1 s1 = ''+'' then drop 1 s1 else s1);
               hex = (take 2 s2 = ''0x'' \<or> take 2 s2 = ''0X'');
               ds = (if hex then takeWhile is_hex_digit (drop 2 s2) else takeWhile is_digit s2);
               n = (if hex then foldl (\<lambda>n c. 16 * n + hex_val c) 0 ds else dec ds)
           in if ds = [] then None else Some (if neg then - int n else int n)))"

text \<open>\<^verbatim>\<open>`${Math.round(n / d)} MB`\<close>.\<close>

definition rounded_MB :: "int option \<Rightarrow> int \<Rightarrow> string" where
  "rounded_MB n d =
     (case n of None \<Rightarrow> ''NaN MB'' | Some k \<Rightarrow> show_int (round (of_int k / of_int d :: rat)) @ '' MB'')"

text \<open>\<^verbatim>\<open>x.toFixed(1)\<close> for a number that is not negative.\<close>

definition toFixed1 :: "rat \<Rightarrow> string" where
  "toFixed1 x = (let n = round (x * 10) in show_int (n div 10) @ ''.'' @ show_int (n mod 10))"

text \<open>\<^verbatim>\<open>s.replace(pat, '')\<close> for a string pattern: the first occurrence goes.\<close>

fun remove_first :: "string \<Rightarrow> string \<Rightarrow> string" where
  "remove_first pat [] = []"
| "remove_first pat (c # cs) =
     (if take (length pat) (c # cs) = pat then drop (length pat) (c # cs)
      else c # remove_first pat cs)"

fun join_str :: "string \<Rightarrow> string list \<Rightarrow> string" where
  "join_str sep [] = []"
| "join_str sep [l] = l"
| "join_str sep (l # m # ls) = l @ sep @ join_str sep (m # ls)"

text \<open>\<^verbatim>\<open>formatUptime\<close>, on whole seconds.  The code also calls it on a positive
  fraction of seconds, where it gives what it gives on the whole part.\<close>

definition formatUptime :: "nat \<Rightarrow> string" where
  "formatUptime seconds =
     (let days = seconds div (24 * 60 * 60);
          seconds1 = seconds mod (24 * 60 * 60);
          hours = seconds1 div (60 * 60);
          seconds2 = seconds1 mod (60 * 60);
          minutes = seconds2 div 60;
          parts =
            (if days > 0 then [show_int (int days) @ '' day'' @ (if days \<noteq> 1 then ''s'' else [])] else []) @
            (if hours > 0 then [show_int (int hours) @ '' hour'' @ (if hours \<noteq> 1 then ''s'' else [])] else []) @
            (if minutes > 0 then [show_int (int minutes) @ '' minute'' @ (if minutes \<noteq> 1 then ''s'' else [])] else [])
      in if join_str '', '' parts = [] then ''0 minutes'' else join_str '', '' parts)"

subsection \<open>Process metrics of a stream\<close>

record ProcessInfo =
  running :: bool
  p_pid :: "string option"
  p_cpu :: "string option"
  p_memory :: "string option"
  p_runtime :: "string option"
  p_bitrate :: "string option"
  p_fps :: "string option"

text \<open>\<^verbatim>\<open>{ running: false }\<close>\<close>

definition not_running :: ProcessInfo where
  "not_running = \<lparr>running = False, p_pid = None, p_cpu = None, p_memory = None,
                   p_runtime = None, p_bitrate = None, p_fps = None\<rparr>"

text \<open>The bit rate and frame rate, scraped from the last 20 lines of the stream's log.\<close>

definition ffmpegStats :: "env \<Rightarrow> world \<Rightarrow> string \<Rightarrow> ProcessInfo \<Rightarrow> exn + ProcessInfo" where
  "ffmpegStats e w i processInfo =
     (if logs w i = None then Inr processInfo
      else (case readLogFile e w i of
              Inl x \<Rightarrow> Inl x
            | Inr logData \<Rightarrow>
                (let all_lines = split_on (CHR 0x0A) logData;
                     lines = drop (length all_lines - 20) all_lines;
                     info1 = (case search bitrate_at (join_with (CHR 0x0A) lines) of
                                Some b \<Rightarrow> processInfo\<lparr>p_bitrate := Some (b @ '' kbits/s'')\<rparr>
                              | None \<Rightarrow> processInfo);
                     info2 = (case search fps_at (join_with (CHR 0x0A) lines) of
                                Some f \<Rightarrow> info1\<lparr>p_fps := Some (f @ '' fps'')\<rparr>
                              | None \<Rightarrow> info1)
                 in Inr info2)))"

definition psGrepCmd :: "IPTVStream \<Rightarrow> string" where
  "psGrepCmd stream = ''ps aux | grep '' @ quoted (link1 stream) @ '' | grep -v grep''"

text \<open>The inner try block on Linux and macOS.\<close>

definition unixProcessInfo :: "env \<Rightarrow> world \<Rightarrow> IPTVStream \<Rightarrow> string \<Rightarrow> exn + ProcessInfo" where
  "unixProcessInfo e w stream i =
     (case probe e w (psGrepCmd stream) of
        Inl x \<Rightarrow> Inl x
      | Inr psOutput \<Rightarrow>
          (let lines = split_on (CHR 0x0A) (trim psOutput)
           in if length lines > 0 then
                (let parts = split_ws (lines ! 0)
                 in ffmpegStats e w i
                      \<lparr>running = True,
                       p_pid = nth_opt parts 1,
                       p_cpu = Some (in_template (nth_opt parts 2) @ ''%''),
                       p_memory = Some (rounded_MB (parseInt (nth_opt parts 5)) 1024),
                       p_runtime = nth_opt parts 9,
                       p_bitrate = Some ''N/A'',
                       p_fps = Some ''N/A''\<rparr>)
              else Inr not_running))"

definition wmicFindCmd :: "IPTVStream \<Rightarrow> string" where
  "wmicFindCmd stream =
     ''wmic process where '' @
     quoted (''commandline like '' @ [CHR 0x27] @ ''%'' @ link1 stream @ ''%'' @ [CHR 0x27]) @
     '' get processid,commandline''"

text \<open>The CPU share and the run time on Windows: the user-mode time (in units of 100 ns)
  over the time since the creation date, which is read as a local time.\<close>

definition cpuAndRuntime :: "env \<Rightarrow> world \<Rightarrow> string \<Rightarrow> string \<Rightarrow> ProcessInfo \<Rightarrow> ProcessInfo" where
  "cpuAndRuntime e w cpuTimeText creation processInfo =
     (let cpuTime = (of_nat (dec cpuTimeText) :: rat) / 10000000;
          creationTime = Date_local e
            (int (dec (take 4 creation)))
            (int (dec (take 2 (drop 4 creation))) - 1)
            (int (dec (take 2 (drop 6 creation))))
            (int (dec (take 2 (drop 8 creation))))
            (int (dec (take 2 (drop 10 creation))))
            (int (dec (take 2 (drop 12 creation))));
          elapsedSeconds = (of_int (now w - creationTime) :: rat) / 1000
      in if elapsedSeconds > 0 then
           processInfo\<lparr>p_cpu := Some (toFixed1 (cpuTime / elapsedSeconds * 100) @ ''%''),
                        p_runtime := Some (formatUptime (nat \<lfloor>elapsedSeconds\<rfloor>))\<rparr>
         else processInfo)"

text \<open>The inner try block on Windows.\<close>

definition windowsProcessInfo :: "env \<Rightarrow> world \<Rightarrow> IPTVStream \<Rightarrow> string \<Rightarrow> exn + ProcessInfo" where
  "windowsProcessInfo e w stream i =
     (case probe e w (wmicFindCmd stream) of
        Inl x \<Rightarrow> Inl x
      | Inr cmdOutput \<Rightarrow>
          (case search digits_to_eol_at cmdOutput of
             None \<Rightarrow> Inr not_running
           | Some found \<Rightarrow>
               (case probe e w (''wmic process where processid='' @ found @
                                '' get workingsetsize,usermodetime'') of
                  Inl x \<Rightarrow> Inl x
                | Inr procInfoOutput \<Rightarrow>
                    (let info0 = \<lparr>running = True, p_pid = Some found, p_cpu = Some ''0%'',
                                  p_memory = Some ''0 MB'', p_runtime = Some ''0s'',
                                  p_bitrate = Some ''N/A'', p_fps = Some ''N/A''\<rparr>;
                         info1 = (case search digits_at procInfoOutput of
                                    Some m \<Rightarrow> info0\<lparr>p_memory :=
                                                Some (rounded_MB (Some (int (dec m))) (1024 * 1024))\<rparr>
                                  | None \<Rightarrow> info0)
                     in case search digits_to_end_at procInfoOutput of
                          None \<Rightarrow> ffmpegStats e w i info1
                        | Some cpuTimeText \<Rightarrow>
                            (case probe e w (''wmic process where processid='' @ found @
                                             '' get creationdate'') of
                               Inl x \<Rightarrow> Inl x
                             | Inr uptimeOutput \<Rightarrow>
                                 ffmpegStats e w i
                                   (case search digits14_at uptimeOutput of
                                      None \<Rightarrow> info1
                                    | Some creation \<Rightarrow>
                                        cpuAndRuntime e w cpuTimeText creation info1))))))"

text \<open>Each platform's block sits in its own try with a catch that returns
  \<^verbatim>\<open>{ running: false }\<close>, and both sit in an outer try with the same catch.\<close>

definition getStreamProcessInfo :: "env \<Rightarrow> world \<Rightarrow> string \<Rightarrow> exn + ProcessInfo" where
  "getStreamProcessInfo e w i =
     (case getStreamById e w i of
        None \<Rightarrow> Inr not_running
      | Some stream \<Rightarrow>
          if \<not> active stream then Inr not_running
          else try_catch
                 (if platform e = Win32
                  then try_catch (windowsProcessInfo e w stream i) (\<lambda>x. Inr not_running)
                  else try_catch (unixProcessInfo e w stream i) (\<lambda>x. Inr not_running))
                 (\<lambda>x. Inr not_running))"

subsection \<open>System statistics\<close>

record Usage =
  total' :: int
  used :: int
  free :: int
  percent :: int

record SystemStats =
  cpu :: string
  memory :: Usage
  disk :: Usage
  uptime :: string

text \<open>The local variables of \<^verbatim>\<open>getSystemStats\<close>.  Numbers are exact rationals here;
  the code's are doubles.\<close>

record stat_vars =
  v_cpu :: string
  memTotal :: rat
  memUsed :: rat
  memFree :: rat
  diskTotal :: rat
  diskUsed :: rat
  diskFree :: rat
  uptimeString :: string

definition initial_vars :: stat_vars where
  "initial_vars = \<lparr>v_cpu = ''0 %'', memTotal = 0, memUsed = 0, memFree = 0,
                    diskTotal = 0, diskUsed = 0, diskFree = 0, uptimeString = []\<rparr>"

text \<open>A block of assignments that a throwing probe cuts short: the exception comes with
  the variables as they are at that point.  The catch of each block logs and goes on.\<close>

definition swallow :: "(exn \<times> 'a) + 'a \<Rightarrow> 'a" where
  "swallow r = (case r of Inl (x, v) \<Rightarrow> v | Inr v \<Rightarrow> v)"

text \<open>One statement after another inside a try block: the first that throws ends the
  block.\<close>

definition and_then ::
  "(exn \<times> 'a) + 'a \<Rightarrow> ('a \<Rightarrow> (exn \<times> 'a) + 'a) \<Rightarrow> (exn \<times> 'a) + 'a" where
  "and_then r f = (case r of Inl xv \<Rightarrow> Inl xv | Inr v \<Rightarrow> f v)"

text \<open>The try block on Windows, probe by probe: CPU load, memory, disk, uptime.\<close>

definition windowsCpu :: "env \<Rightarrow> world \<Rightarrow> stat_vars \<Rightarrow> (exn \<times> stat_vars) + stat_vars" where
  "windowsCpu e w v =
     (case probe e w ''wmic cpu get loadpercentage'' of
        Inl x \<Rightarrow> Inl (x, v)
      | Inr out \<Rightarrow>
          Inr (case search digits_at (trim out) of
                 Some cpuMatch \<Rightarrow> v\<lparr>v_cpu := cpuMatch @ '' %''\<rparr>
               | None \<Rightarrow> v))"

definition windowsMemory :: "env \<Rightarrow> world \<Rightarrow> stat_vars \<Rightarrow> (exn \<times> stat_vars) + stat_vars" where
  "windowsMemory e w v =
     (case probe e w ''wmic OS get FreePhysicalMemory,TotalVisibleMemorySize /Value'' of
        Inl x \<Rightarrow> Inl (x, v)
      | Inr memoryOutput \<Rightarrow>
          Inr (case search (lit_digits_at ''TotalVisibleMemorySize='') memoryOutput of
                 None \<Rightarrow> v
               | Some totalMemory \<Rightarrow>
                   (case search (lit_digits_at ''FreePhysicalMemory='') memoryOutput of
                      None \<Rightarrow> v
                    | Some freeMemory \<Rightarrow>
                        v\<lparr>memTotal := of_nat (dec totalMemory) / 1024,
                          memFree := of_nat (dec freeMemory) / 1024,
                          memUsed := of_nat (dec totalMemory) / 1024
                                     - of_nat (dec freeMemory) / 1024\<rparr>)))"

definition windowsDisk :: "env \<Rightarrow> world \<Rightarrow> stat_vars \<Rightarrow> (exn \<times> stat_vars) + stat_vars" where
  "windowsDisk e w v =
     (case probe e w (''wmic logicaldisk where DeviceID='' @ quoted ''C:'' @
                      '' get Size,FreeSpace /Value'') of
        Inl x \<Rightarrow> Inl (x, v)
      | Inr diskOutput \<Rightarrow>
          Inr (case search (lit_digits_at ''Size='') diskOutput of
                 None \<Rightarrow> v
               | Some totalDisk \<Rightarrow>
                   (case search (lit_digits_at ''FreeSpace='') diskOutput of
                      None \<Rightarrow> v
                    | Some freeDisk \<Rightarrow>
                        v\<lparr>diskTotal := of_nat (dec totalDisk) / (1024 * 1024 * 1024),
                          diskFree := of_nat (dec freeDisk) / (1024 * 1024 * 1024),
                          diskUsed := of_nat (dec totalDisk) / (1024 * 1024 * 1024)
                                      - of_nat (dec freeDisk) / (1024 * 1024 * 1024)\<rparr>)))"

definition windowsUptime :: "env \<Rightarrow> world \<Rightarrow> stat_vars \<Rightarrow> (exn \<times> stat_vars) + stat_vars" where
  "windowsUptime e w v =
     (case probe e w (''net statistics server | find '' @ quoted ''Statistics since'') of
        Inl x \<Rightarrow> Inl (x, v)
      | Inr uptimeOutput \<Rightarrow>
          Inr (v\<lparr>uptimeString :=
                 (if uptimeOutput \<noteq> []
                  then trim (remove_first ''Statistics since'' uptimeOutput)
                  else formatUptime (nat \<lfloor>os_uptime e\<rfloor>))\<rparr>))"

definition windowsStats :: "env \<Rightarrow> world \<Rightarrow> stat_vars \<Rightarrow> (exn \<times> stat_vars) + stat_vars" where
  "windowsStats e w v =
     and_then (windowsCpu e w v) (\<lambda>v1.
     and_then (windowsMemory e w v1) (\<lambda>v2.
     and_then (windowsDisk e w v2) (\<lambda>v3.
     windowsUptime e w v3)))"

text \<open>The try block on macOS and Linux, probe by probe: CPU load, memory, then the disk
  together with the uptime, which needs no command.\<close>

definition unixCpu :: "env \<Rightarrow> world \<Rightarrow> stat_vars \<Rightarrow> (exn \<times> stat_vars) + stat_vars" where
  "unixCpu e w v =
     (case probe e w (if platform e = Darwin
                      then ''top -l 1 | grep '' @ [CHR 0x27] @ ''CPU usage'' @ [CHR 0x27]
                      else ''top -b -n 1 | grep '' @ [CHR 0x27] @ ''%Cpu'' @ [CHR 0x27]) of
        Inl x \<Rightarrow> Inl (x, v)
      | Inr cpuOutput \<Rightarrow>
          Inr (case search cpu_user_at cpuOutput of
                 Some cpuMatch \<Rightarrow> v\<lparr>v_cpu := cpuMatch @ '' %''\<rparr>
               | None \<Rightarrow> v))"

text \<open>The five page counts of \<^verbatim>\<open>vm_stat\<close>, when all five are found.\<close>

definition vm_pages :: "string \<Rightarrow> (nat \<times> nat \<times> nat \<times> nat \<times> nat) option" where
  "vm_pages memOutput =
     (case search (lit_ws_digits_at ''Pages free:'') memOutput of None \<Rightarrow> None | Some fr \<Rightarrow>
     (case search (lit_ws_digits_at ''Pages active:'') memOutput of None \<Rightarrow> None | Some ac \<Rightarrow>
     (case search (lit_ws_digits_at ''Pages inactive:'') memOutput of None \<Rightarrow> None | Some ina \<Rightarrow>
     (case search (lit_ws_digits_at ''Pages speculative:'') memOutput of None \<Rightarrow> None | Some sp \<Rightarrow>
     (case search (lit_ws_digits_at ''Pages wired down:'') memOutput of None \<Rightarrow> None | Some wi \<Rightarrow>
        Some (dec fr, dec ac, dec ina, dec sp, dec wi))))))"

definition unixMemory :: "env \<Rightarrow> world \<Rightarrow> stat_vars \<Rightarrow> (exn \<times> stat_vars) + stat_vars" where
  "unixMemory e w v =
     (if platform e = Darwin then
        (case probe e w ''vm_stat'' of
           Inl x \<Rightarrow> Inl (x, v)
         | Inr memOutput \<Rightarrow>
             Inr (case vm_pages memOutput of
                    None \<Rightarrow> v
                  | Some (fr, ac, ina, sp, wi) \<Rightarrow>
                      v\<lparr>memTotal := of_nat ((fr + ac + ina + sp + wi) * 4096) / (1024 * 1024),
                        memFree := of_nat (fr * 4096) / (1024 * 1024),
                        memUsed := of_nat ((fr + ac + ina + sp + wi) * 4096) / (1024 * 1024)
                                   - of_nat (fr * 4096) / (1024 * 1024)\<rparr>))
      else
        (case probe e w ''free -m'' of
           Inl x \<Rightarrow> Inl (x, v)
         | Inr memOutput \<Rightarrow>
             Inr (case search mem_line_at memOutput of
                    None \<Rightarrow> v
                  | Some (t, u, f) \<Rightarrow>
                      v\<lparr>memTotal := of_nat (dec t), memUsed := of_nat (dec u),
                        memFree := of_nat (dec f)\<rparr>)))"

definition unixDisk :: "env \<Rightarrow> world \<Rightarrow> stat_vars \<Rightarrow> (exn \<times> stat_vars) + stat_vars" where
  "unixDisk e w v =
     (case probe e w ''df -h /'' of
        Inl x \<Rightarrow> Inl (x, v)
      | Inr diskOutput \<Rightarrow>
          Inr ((case search (digits_then_at (CHR ''%'')) diskOutput of
                  None \<Rightarrow> v
                | Some diskMatch \<Rightarrow>
                    (case search (digits_then_at (CHR ''G'')) diskOutput of
                       None \<Rightarrow> v
                     | Some sizeMatch \<Rightarrow>
                         v\<lparr>diskTotal := of_nat (dec (takeWhile is_digit sizeMatch)),
                           diskUsed := of_nat (dec (takeWhile is_digit sizeMatch))
                                       * (of_nat (dec (takeWhile is_digit diskMatch)) / 100),
                           diskFree := of_nat (dec (takeWhile is_digit sizeMatch))
                                       - of_nat (dec (takeWhile is_digit sizeMatch))
                                         * (of_nat (dec (takeWhile is_digit diskMatch)) / 100)\<rparr>))
               \<lparr>uptimeString := formatUptime (nat \<lfloor>os_uptime e\<rfloor>)\<rparr>))"

definition unixStats :: "env \<Rightarrow> world \<Rightarrow> stat_vars \<Rightarrow> (exn \<times> stat_vars) + stat_vars" where
  "unixStats e w v =
     and_then (unixCpu e w v) (\<lambda>v1.
     and_then (unixMemory e w v1) (\<lambda>v2.
     unixDisk e w v2))"

text \<open>The fallback for other platforms asks Node's \<^verbatim>\<open>os\<close> module and runs no command.\<close>

definition otherStats :: "env \<Rightarrow> world \<Rightarrow> stat_vars \<Rightarrow> (exn \<times> stat_vars) + stat_vars" where
  "otherStats e w v =
     Inr (v\<lparr>v_cpu := toFixed1 (os_loadavg e) @ '' %'',
            memTotal := os_totalmem e / (1024 * 1024),
            memFree := os_freemem e / (1024 * 1024),
            memUsed := os_totalmem e / (1024 * 1024) - os_freemem e / (1024 * 1024),
            uptimeString := formatUptime (nat \<lfloor>os_uptime e\<rfloor>)\<rparr>)"

definition stats_of :: "stat_vars \<Rightarrow> SystemStats" where
  "stats_of v =
     \<lparr>cpu = v_cpu v,
      memory = \<lparr>total' = round (memTotal v), used = round (memUsed v), free = round (memFree v),
                percent = (if memTotal v > 0 then round (memUsed v / memTotal v * 100) else 0)\<rparr>,
      disk = \<lparr>total' = round (diskTotal v), used = round (diskUsed v), free = round (diskFree v),
              percent = (if diskTotal v > 0 then round (diskUsed v / diskTotal v * 100) else 0)\<rparr>,
      uptime = uptimeString v\<rparr>"

text \<open>The fallback value of the outer catch.\<close>

definition fallback_stats :: SystemStats where
  "fallback_stats =
     \<lparr>cpu = ''0 %'', memory = \<lparr>total' = 0, used = 0, free = 0, percent = 0\<rparr>,
      disk = \<lparr>total' = 0, used = 0, free = 0, percent = 0\<rparr>, uptime = ''Unknown''\<rparr>"

definition getSystemStats :: "env \<Rightarrow> world \<Rightarrow> exn + SystemStats" where
  "getSystemStats e w =
     try_catch
       (Inr (stats_of
          (if platform e = Win32 then swallow (windowsStats e w initial_vars)
           else if platform e = Darwin \<or> platform e = Linux then swallow (unixStats e w initial_vars)
           else swallow (otherStats e w initial_vars))))
       (\<lambda>x. Inr fallback_stats)"

subsection \<open>Notions used to state the properties\<close>

text \<open>A log file with the lines \<^verbatim>\<open>JSON.parse\<close> rejects taken out.\<close>

definition drop_invalid :: "(string \<Rightarrow> 'a option) \<Rightarrow> string \<Rightarrow> string" where
  "drop_invalid JSON_parse data =
     join_with (CHR 0x0A) (filter (\<lambda>line. JSON_parse line \<noteq> None) (split_on (CHR 0x0A) data))"

text \<open>The first kill command \<^verbatim>\<open>stopStream\<close> issues for a stream.\<close>

definition firstKill :: "env \<Rightarrow> IPTVStream \<Rightarrow> string" where
  "firstKill e stream =
     (if platform e = Win32 then taskkillCmd ''WINDOWTITLE'' stream else pkillCmd stream)"

text \<open>The world the kill commands leave behind, whether the last one threw or not.\<close>

definition after_kill :: "env \<Rightarrow> IPTVStream \<Rightarrow> world \<Rightarrow> world" where
  "after_kill e stream w = (case killCommands e stream w of Inr w1 \<Rightarrow> w1 | Inl (x, w1) \<Rightarrow> w1)"

text \<open>The events of appending one entry to the log of stream \<open>i\<close>.\<close>

definition log_events :: "env \<Rightarrow> string \<Rightarrow> world \<Rightarrow> event list" where
  "log_events e i w =
     (if logs w i = None then [Write (logPath e i)] else []) @ [Append (logPath e i)]"

text \<open>The events of \<^verbatim>\<open>stopStream\<close> after its kill commands: the try block rewrites
  the streams file and then logs, the catch block logs and then rewrites.\<close>

definition stop_events :: "env \<Rightarrow> IPTVStream \<Rightarrow> string \<Rightarrow> world \<Rightarrow> event list" where
  "stop_events e stream i w =
     (case killCommands e stream w of
        Inr w1 \<Rightarrow> Write (STREAMS_FILE e) # log_events e i w
      | Inl xw \<Rightarrow> log_events e i w @ [Write (STREAMS_FILE e)])"

text \<open>The live processes a start of stream \<open>i\<close> has spawned.\<close>

definition live_of :: "string \<Rightarrow> world \<Rightarrow> proc list" where
  "live_of i w = filter (\<lambda>p. owner p = i) (procs w)"

subsection \<open>Example worlds\<close>

text \<open>A Linux host on which every shell command exits with a non-zero status and leaves
  the process table as it is.  For \<^verbatim>\<open>pkill -f\<close> that is the case whenever no process
  matches the pattern: status 1 makes \<^verbatim>\<open>execSync\<close> throw.  The input URL below holds
  a question mark, which the pattern of \<^verbatim>\<open>pkill\<close> reads as a regular-expression
  operator, so the pattern does not match the command line that holds the URL.\<close>

definition env_kill_fails :: env where
  "env_kill_fails =
     \<lparr>platform = Linux,
      execSync = (\<lambda>cmd ps. (Inl (Exn (''Error: Command failed: '' @ cmd)), ps)),
      spawn_throws = (\<lambda>c a. None),
      read_throws = (\<lambda>p. None),
      os_loadavg = 0, os_totalmem = 0, os_freemem = 0, os_uptime = 0,
      Date_local = (\<lambda>y m d h mi s. 0),
      STREAMS_FILE = ''/app/data/streams.json'',
      STREAM_LOGS_DIR = ''/app/data/logs'',
      STREAM_SCRIPTS_DIR = ''/app/data/scripts''\<rparr>"

text \<open>A Linux host on which \<^verbatim>\<open>pkill -f "<url>"\<close> ends every process that has the
  URL among its arguments.\<close>

definition env_kill_works :: env where
  "env_kill_works =
     \<lparr>platform = Linux,
      execSync = (\<lambda>cmd ps. (Inr [],
                   filter (\<lambda>p. \<not> (\<exists>a \<in> set (args p). cmd = ''pkill -f '' @ quoted a)) ps)),
      spawn_throws = (\<lambda>c a. None),
      read_throws = (\<lambda>p. None),
      os_loadavg = 0, os_totalmem = 0, os_freemem = 0, os_uptime = 0,
      Date_local = (\<lambda>y m d h mi s. 0),
      STREAMS_FILE = ''/app/data/streams.json'',
      STREAM_LOGS_DIR = ''/app/data/logs'',
      STREAM_SCRIPTS_DIR = ''/app/data/scripts''\<rparr>"

definition ex_stream :: IPTVStream where
  "ex_stream =
     \<lparr>id_str = ''s1'', name = ''News'', key = ''k1'', link1 = ''http://src/live?ch=1'',
      rtmp = ''rtmp://out/app'', category1 = ''News'', bitrate = ''1000k'',
      resolution = ''1280x720'', active = True, pid = None, createdAt = 1, updatedAt = 1\<rparr>"

definition ex_proc :: proc where
  "ex_proc = \<lparr>owner = ''s1'', command = ''sh'',
               args = [''/app/data/scripts/s1.sh'', ''http://src/live?ch=1'', ''rtmp://out/app'']\<rparr>"

text \<open>The stream is marked active and its process is alive.\<close>

definition ex_running :: world where
  "ex_running =
     \<lparr>streams = [ex_stream], logs = [''s1'' \<mapsto> []], scripts = [''s1'' \<mapsto> ''#!/bin/bash''],
      procs = [ex_proc], now = 5000, history = []\<rparr>"

text \<open>The stream is marked inactive and has no process.\<close>

definition ex_stopped :: world where
  "ex_stopped =
     \<lparr>streams = [ex_stream\<lparr>active := False\<rparr>], logs = [''s1'' \<mapsto> []],
      scripts = [''s1'' \<mapsto> ''#!/bin/bash''], procs = [], now = 5000, history = []\<rparr>"

text \<open>The log entry \<^verbatim>\<open>stopStream\<close> appends: by the try block when no kill command
  throws, by the catch block otherwise.\<close>

definition stop_entry :: "env \<Rightarrow> IPTVStream \<Rightarrow> world \<Rightarrow> LogEntry" where
  "stop_entry e stream w =
     (case killCommands e stream w of
        Inr w1 \<Rightarrow> \<lparr>timestamp = now w, message = ''Stream stopped'', log_type = Info\<rparr>
      | Inl (x, w1) \<Rightarrow> \<lparr>timestamp = now w,
                         message = ''Error while stopping stream: '' @ exn_text x,
                         log_type = Warning\<rparr>)"

text \<open>Two running streams whose input URLs share a prefix: \<open>http://src/ch1\<close> of stream
  \<open>a\<close> is contained in \<open>http://src/ch10\<close> of stream \<open>b\<close>.  No PID is recorded for
  either, as the module never records one.\<close>

definition stream_a :: IPTVStream where
  "stream_a = ex_stream\<lparr>id_str := ''a'', link1 := ''http://src/ch1''\<rparr>"

definition stream_b :: IPTVStream where
  "stream_b = ex_stream\<lparr>id_str := ''b'', link1 := ''http://src/ch10''\<rparr>"

definition ex_two :: world where
  "ex_two =
     \<lparr>streams = [stream_a, stream_b], logs = Map.empty, scripts = Map.empty,
      procs = [\<lparr>owner = ''b'', command = ''sh'',
                 args = [''/app/data/scripts/b.sh'', ''http://src/ch10'', ''rtmp://out/app'']\<rparr>,
               \<lparr>owner = ''a'', command = ''sh'',
                 args = [''/app/data/scripts/a.sh'', ''http://src/ch1'', ''rtmp://out/app'']\<rparr>],
      now = 5000, history = []\<rparr>"

text \<open>The lines \<^verbatim>\<open>ps aux\<close> prints for the two processes: stream \<open>b\<close> was started
  first and has PID 200, stream \<open>a\<close> has PID 300.\<close>

definition ps_line_b :: string where
  "ps_line_b = ''root 200 1.5 0.4 9000 20480 ? S 10:00 0:05 sh /app/data/scripts/b.sh http://src/ch10 rtmp://out/app''"

definition ps_line_a :: string where
  "ps_line_a = ''root 300 2.5 0.6 9000 30720 ? S 10:01 0:07 sh /app/data/scripts/a.sh http://src/ch1 rtmp://out/app''"

text \<open>A Linux host with these two processes: the pipeline for the URL of \<open>a\<close> prints
  both lines, since both hold \<open>http://src/ch1\<close>, and the one for the URL of \<open>b\<close>
  prints the line of \<open>b\<close>.  No other command is available.\<close>

definition env_two :: env where
  "env_two =
     \<lparr>platform = Linux,
      execSync = (\<lambda>cmd ps.
         if cmd = ''ps aux | grep '' @ quoted ''http://src/ch1'' @ '' | grep -v grep''
         then (Inr (ps_line_b @ [CHR 0x0A] @ ps_line_a @ [CHR 0x0A]), ps)
         else if cmd = ''ps aux | grep '' @ quoted ''http://src/ch10'' @ '' | grep -v grep''
         then (Inr (ps_line_b @ [CHR 0x0A]), ps)
         else (Inl (Exn (''Error: Command failed: '' @ cmd)), ps)),
      spawn_throws = (\<lambda>c a. None),
      read_throws = (\<lambda>p. None),
      os_loadavg = 0, os_totalmem = 0, os_freemem = 0, os_uptime = 0,
      Date_local = (\<lambda>y m d h mi s. 0),
      STREAMS_FILE = ''/app/data/streams.json'',
      STREAM_LOGS_DIR = ''/app/data/logs'',
      STREAM_SCRIPTS_DIR = ''/app/data/scripts''\<rparr>"

text \<open>The statistics with nothing measured.\<close>

definition zero_stats :: SystemStats where
  "zero_stats =
     \<lparr>cpu = ''0 %'', memory = \<lparr>total' = 0, used = 0, free = 0, percent = 0\<rparr>,
      disk = \<lparr>total' = 0, used = 0, free = 0, percent = 0\<rparr>, uptime = []\<rparr>"

definition zero_usage :: Usage where
  "zero_usage = \<lparr>total' = 0, used = 0, free = 0, percent = 0\<rparr>"

text \<open>The shell commands of \<^verbatim>\<open>getSystemStats\<close> on the platforms that run any: for the
  CPU load, the memory, the disk and, on Windows, the uptime.\<close>

definition cpuCmd :: "env \<Rightarrow> string" where
  "cpuCmd e =
     (if platform e = Win32 then ''wmic cpu get loadpercentage''
      else if platform e = Darwin then ''top -l 1 | grep '' @ [CHR 0x27] @ ''CPU usage'' @ [CHR 0x27]
      else ''top -b -n 1 | grep '' @ [CHR 0x27] @ ''%Cpu'' @ [CHR 0x27])"

definition memCmd :: "env \<Rightarrow> string" where
  "memCmd e =
     (if platform e = Win32 then ''wmic OS get FreePhysicalMemory,TotalVisibleMemorySize /Value''
      else if platform e = Darwin then ''vm_stat''
      else ''free -m'')"

definition diskCmd :: "env \<Rightarrow> string" where
  "diskCmd e =
     (if platform e = Win32
      then ''wmic logicaldisk where DeviceID='' @ quoted ''C:'' @ '' get Size,FreeSpace /Value''
      else ''df -h /'')"

definition uptimeCmd :: string where
  "uptimeCmd = ''net statistics server | find '' @ quoted ''Statistics since''"

text \<open>The memory variables, and the disk variables, still at their initial zero.\<close>

definition mem_unset :: "stat_vars \<Rightarrow> bool" where
  "mem_unset v = (memTotal v = 0 \<and> memUsed v = 0 \<and> memFree v = 0)"

definition disk_unset :: "stat_vars \<Rightarrow> bool" where
  "disk_unset v = (diskTotal v = 0 \<and> diskUsed v = 0 \<and> diskFree v = 0)"

text \<open>A step of a try block keeps a property of the variables: whether it returns or
  throws, the variables it leaves have the property if those it found had it.\<close>

definition keeps :: "('a \<Rightarrow> bool) \<Rightarrow> ('a \<Rightarrow> (exn \<times> 'a) + 'a) \<Rightarrow> bool" where
  "keeps P step = (\<forall>v. P v \<longrightarrow> P (swallow (step v)))"

text \<open>A shell command that throws when run as a probe.\<close>

definition throws :: "env \<Rightarrow> world \<Rightarrow> string \<Rightarrow> bool" where
  "throws e w cmd = (\<exists>x. probe e w cmd = Inl x)"

text \<open>The Windows commands that ask about one process by its id.\<close>

definition by_pid :: "string \<Rightarrow> bool" where
  "by_pid cmd = (take 29 cmd = ''wmic process where processid='')"

text \<open>A Linux host where \<^verbatim>\<open>top\<close> and \<^verbatim>\<open>free\<close> answer and every other command
  throws, \<^verbatim>\<open>df\<close> among them.\<close>

definition env_df_fails :: env where
  "env_df_fails =
     \<lparr>platform = Linux,
      execSync = (\<lambda>cmd ps.
         if cmd = ''top -b -n 1 | grep '' @ [CHR 0x27] @ ''%Cpu'' @ [CHR 0x27]
         then (Inr ''%Cpu(s): 12.5% user'', ps)
         else if cmd = ''free -m''
         then (Inr ''Mem: 8000 2000 6000'', ps)
         else (Inl (Exn (''Error: Command failed: '' @ cmd)), ps)),
      spawn_throws = (\<lambda>c a. None),
      read_throws = (\<lambda>p. None),
      os_loadavg = 0, os_totalmem = 0, os_freemem = 0, os_uptime = 0,
      Date_local = (\<lambda>y m d h mi s. 0),
      STREAMS_FILE = ''/app/data/streams.json'',
      STREAM_LOGS_DIR = ''/app/data/logs'',
      STREAM_SCRIPTS_DIR = ''/app/data/scripts''\<rparr>"

text \<open>The host of \<open>env_two\<close> with the log of stream \<open>a\<close> unreadable, and the world of
  \<open>ex_two\<close> with that log present.\<close>

definition env_log_unreadable :: env where
  "env_log_unreadable =
     env_two\<lparr>read_throws :=
       (\<lambda>p. if p = ''/app/data/logs/a.log'' then Some (Exn ''Error: EACCES: permission denied'')
            else None)\<rparr>"

definition ex_two_logged :: world where
  "ex_two_logged = ex_two\<lparr>logs := [''a'' \<mapsto> ''frame= 100 fps= 25 bitrate=2097.2kbits/s'']\<rparr>"

text \<open>The command that looks a stream's process up, and the PID read off its output.\<close>

definition findCmd :: "env \<Rightarrow> IPTVStream \<Rightarrow> string" where
  "findCmd e stream = (if platform e = Win32 then wmicFindCmd stream else psGrepCmd stream)"

definition first_line_parts :: "string \<Rightarrow> string list" where
  "first_line_parts out = split_ws (split_on (CHR 0x0A) (trim out) ! 0)"

definition pid_in :: "env \<Rightarrow> string \<Rightarrow> string option" where
  "pid_in e out =
     (if platform e = Win32 then search digits_to_eol_at out
      else nth_opt (first_line_parts out) 1)"

text \<open>The Windows commands that ask about the process with a given id: its memory and
  CPU time, and its creation date.\<close>

definition procInfoCmd :: "string \<Rightarrow> string" where
  "procInfoCmd p = ''wmic process where processid='' @ p @ '' get workingsetsize,usermodetime''"

definition creationCmd :: "string \<Rightarrow> string" where
  "creationCmd p = ''wmic process where processid='' @ p @ '' get creationdate''"

text \<open>A Windows host where the lookup by URL finds process 4242 and every other command
  throws, and one where the memory and CPU time of process 4242 are answered too and
  only its creation date throws.\<close>

definition env_win_found :: env where
  "env_win_found =
     env_kill_fails\<lparr>platform := Win32,
       execSync := (\<lambda>cmd ps.
         if cmd = wmicFindCmd ex_stream
         then (Inr ''ffmpeg -i http://src/live?ch=1 -f flv rtmp://out/app  4242'', ps)
         else (Inl (Exn (''Error: Command failed: '' @ cmd)), ps))\<rparr>"

definition env_win_no_date :: env where
  "env_win_no_date =
     env_kill_fails\<lparr>platform := Win32,
       execSync := (\<lambda>cmd ps.
         if cmd = wmicFindCmd ex_stream
         then (Inr ''ffmpeg -i http://src/live?ch=1 -f flv rtmp://out/app  4242'', ps)
         else if cmd = procInfoCmd ''4242''
         then (Inr ''50000000  1048576'', ps)
         else (Inl (Exn (''Error: Command failed: '' @ cmd)), ps))\<rparr>"

section \<open>Properties\<close>

subsection \<open>Log retrieval\<close>

lemma trim_Nil_iff: "trim s = [] \<longleftrightarrow> (\<forall>c \<in> set s. is_ws c)"
proof
  assume "trim s = []"
  then have a: "\<forall>c \<in> set (dropWhile is_ws s). is_ws c"
    by (simp add: trim_def)
  have "dropWhile is_ws s = []"
  proof (rule ccontr)
    assume ne: "dropWhile is_ws s \<noteq> []"
    then have "\<not> is_ws (hd (dropWhile is_ws s))" by (rule hd_dropWhile)
    moreover have "hd (dropWhile is_ws s) \<in> set (dropWhile is_ws s)" using ne by simp
    ultimately show False using a by blast
  qed
  then show "\<forall>c \<in> set s. is_ws c" by simp
next
  assume "\<forall>c \<in> set s. is_ws c"
  then have d: "dropWhile is_ws s = []" by simp
  show "trim s = []" unfolding trim_def d by simp
qed

lemma map_filter_rev: "List.map_filter f (rev xs) = rev (List.map_filter f xs)"
  by (simp add: List.map_filter_def rev_map rev_filter)

lemma logs_loop_eq:
  "i < int (length lines) \<Longrightarrow>
   logs_loop p lines limit i acc =
     acc @ take (nat (limit - int (length acc))) (List.map_filter p (rev (take (nat (i + 1)) lines)))"
proof (induction p lines limit i acc rule: logs_loop.induct)
  case (1 p lines limit i acc)
  show ?case
  proof (cases "0 \<le> i \<and> int (length acc) < limit")
    case False
    then show ?thesis by (subst logs_loop.simps) auto
  next
    case True
    then have n: "nat (i + 1) = Suc (nat i)" and lt: "nat i < length lines"
      using "1.prems" by auto
    have r: "rev (take (nat (i + 1)) lines) = lines ! nat i # rev (take (nat i) lines)"
      by (simp add: n take_Suc_conv_app_nth [OF lt])
    have m: "nat (i - 1 + 1) = nat i" by simp
    have pos: "nat (limit - int (length acc)) = Suc (nat (limit - int (length acc) - 1))"
      using True by auto
    show ?thesis
    proof (cases "p (lines ! nat i)")
      case None
      have "logs_loop p lines limit i acc = logs_loop p lines limit (i - 1) acc"
        by (subst logs_loop.simps) (simp add: True None)
      also have "\<dots> = acc @ take (nat (limit - int (length acc)))
                        (List.map_filter p (rev (take (nat (i - 1 + 1)) lines)))"
        using "1.IH"(1) [OF True None] "1.prems" by simp
      also have "\<dots> = acc @ take (nat (limit - int (length acc)))
                        (List.map_filter p (rev (take (nat (i + 1)) lines)))"
        by (simp add: r m None)
      finally show ?thesis .
    next
      case (Some l)
      have "logs_loop p lines limit i acc = logs_loop p lines limit (i - 1) (acc @ [l])"
        by (subst logs_loop.simps) (simp add: True Some)
      also have "\<dots> = (acc @ [l]) @ take (nat (limit - int (length (acc @ [l]))))
                        (List.map_filter p (rev (take (nat (i - 1 + 1)) lines)))"
        using "1.IH"(2) [OF True Some] "1.prems" by simp
      also have "\<dots> = acc @ take (nat (limit - int (length acc)))
                        (List.map_filter p (rev (take (nat (i + 1)) lines)))"
        by (simp add: r m Some pos) (simp add: algebra_simps)
      finally show ?thesis .
    qed
  qed
qed

lemma getStreamLogs_eq:
  "getStreamLogs e p w i limit = take (nat limit) (rev (log_records e p w i))"
proof (cases "readLogFile e w i")
  case (Inl x)
  then show ?thesis by (simp add: getStreamLogs_def log_records_def)
next
  case (Inr data)
  then have ex: "logs w i \<noteq> None"
    by (auto simp: readLogFile_def split: option.splits)
  have "logs_loop p (nonblank_lines data) limit (int (length (nonblank_lines data)) - 1) []
        = take (nat limit) (rev (List.map_filter p (nonblank_lines data)))"
    by (subst logs_loop_eq) (simp_all add: map_filter_rev)
  then show ?thesis
    using Inr ex by (auto simp: getStreamLogs_def log_records_def Let_def)
qed

text \<open>A limit of zero or less gives no entry.  So does the limit \<^verbatim>\<open>NaN\<close>, which the
  logs route passes on when its query parameter is not a number: the loop test
  \<^verbatim>\<open>logs.length < limit\<close> is false from the start, as it is for the limit 0.\<close>

lemma getStreamLogs_no_limit: "limit \<le> 0 \<Longrightarrow> getStreamLogs e p w i limit = []"
  by (simp add: getStreamLogs_eq)

text \<open>
  C7.  For every stream id and every limit \<open>N\<close>, log retrieval returns at most \<open>N\<close>
  records, and they are the most recent records of the log, newest first: the result
  is the first \<open>N\<close> elements of the log's records read backwards from the end of the
  file.
\<close>

theorem getStreamLogs_most_recent_first:
  "length (getStreamLogs e JSON_parse w i (int N)) \<le> N \<and>
   getStreamLogs e JSON_parse w i (int N) = take N (rev (log_records e JSON_parse w i))"
  by (simp add: getStreamLogs_eq)


subsection \<open>Lists and lines\<close>

lemma split_on_no_sep: "l \<in> set (split_on c s) \<Longrightarrow> c \<notin> set l"
  by (induction s arbitrary: l) (auto split: if_splits list.splits)

lemma split_on_append_sep:
  "c \<notin> set l \<Longrightarrow> split_on c (l @ c # s) = l # split_on c s"
  by (induction l) (auto split: list.splits)

lemma split_on_single: "c \<notin> set l \<Longrightarrow> split_on c l = [l]"
  by (induction l) (auto split: list.splits)

lemma split_on_join:
  "ls \<noteq> [] \<Longrightarrow> \<forall>l \<in> set ls. c \<notin> set l \<Longrightarrow> split_on c (join_with c ls) = ls"
  by (induction c ls rule: join_with.induct) (auto simp: split_on_single split_on_append_sep)

lemma nonblank_lines_drop_invalid:
  "nonblank_lines (drop_invalid p data) = filter (\<lambda>line. p line \<noteq> None) (nonblank_lines data)"
proof (cases "filter (\<lambda>line. p line \<noteq> None) (split_on (CHR 0x0A) data) = []")
  case True
  then show ?thesis
    by (simp add: nonblank_lines_def drop_invalid_def trim_def filter_empty_conv)
next
  case False
  moreover have "\<forall>l \<in> set (filter (\<lambda>line. p line \<noteq> None) (split_on (CHR 0x0A) data)). CHR 0x0A \<notin> set l"
    by (auto dest: split_on_no_sep)
  ultimately show ?thesis
    by (simp add: nonblank_lines_def drop_invalid_def split_on_join conj_commute)
qed

lemma map_filter_filter_valid:
  "List.map_filter p (filter (\<lambda>x. p x \<noteq> None) xs) = List.map_filter p xs"
  by (induction xs) (auto split: option.splits)

lemma findIndex_find_None: "findIndex P xs = None \<longleftrightarrow> find P xs = None"
  by (induction xs) auto

lemma find_Some_findIndex:
  "find P xs = Some x \<Longrightarrow> \<exists>n. findIndex P xs = Some n \<and> n < length xs \<and> xs ! n = x"
  by (induction xs) (auto split: if_splits)

lemma find_Some_holds: "find P xs = Some x \<Longrightarrow> P x"
  by (induction xs) (auto split: if_splits)

lemma find_update_at_findIndex:
  "findIndex P xs = Some n \<Longrightarrow> P y \<Longrightarrow> find P (xs[n := y]) = Some y"
  by (induction xs arbitrary: n) (auto split: if_splits)

subsection \<open>What each step leaves alone\<close>

lemma getAllStreams_cong: "streams w' = streams w \<Longrightarrow> getAllStreams e w' = getAllStreams e w"
  by (simp add: getAllStreams_def split: option.splits)

lemma getStreamById_cong: "streams w' = streams w \<Longrightarrow> getStreamById e w' i = getStreamById e w i"
  by (simp add: getStreamById_def getAllStreams_cong [of w' w])

lemma getStreamById_readable:
  "getStreamById e w i = Some stream \<Longrightarrow> getAllStreams e w' = streams w'"
  by (auto simp: getStreamById_def getAllStreams_def split: option.splits)

lemma example_hosts_readable [simp]:
  "getAllStreams env_kill_fails w = streams w"
  "getAllStreams env_kill_works w = streams w"
  "getAllStreams env_two w = streams w"
  by (simp_all add: getAllStreams_def env_kill_fails_def env_kill_works_def env_two_def)

lemma appendToLog_frame:
  "streams (appendToLog e i en w) = streams w"
  "scripts (appendToLog e i en w) = scripts w"
  "procs (appendToLog e i en w) = procs w"
  "now (appendToLog e i en w) = now w"
  by (simp_all add: appendToLog_def Let_def)

lemma appendToLog_history:
  "history (appendToLog e i en w)
     = history w @ (if logs w i = None then [Write (logPath e i)] else []) @ [Append (logPath e i)]"
  by (simp add: appendToLog_def Let_def)

lemma appendToLog_logs:
  "logs (appendToLog e i en w) = (logs w)(i \<mapsto> or_else (logs w i) [] @ JSON_stringify en @ [CHR 0x0A])"
  by (auto simp: appendToLog_def Let_def or_else_def)

lemma getStreamById_appendToLog [simp]:
  "getStreamById e (appendToLog e i en w) j = getStreamById e w j"
  by (rule getStreamById_cong) (simp add: appendToLog_frame)

lemma updateStream_frame:
  "logs (snd (updateStream e i d w)) = logs w"
  "procs (snd (updateStream e i d w)) = procs w"
  "now (snd (updateStream e i d w)) = now w"
  by (simp_all add: updateStream_def Let_def createStreamScript_def split: option.splits)

lemma exec_frame:
  "streams (snd (exec e c w)) = streams w"
  "logs (snd (exec e c w)) = logs w"
  "scripts (snd (exec e c w)) = scripts w"
  "now (snd (exec e c w)) = now w"
  "history (snd (exec e c w)) = history w @ [Exec c]"
  by (simp_all add: exec_def split: prod.splits)

lemma after_kill_frame:
  "streams (after_kill e stream w) = streams w"
  "logs (after_kill e stream w) = logs w"
  "scripts (after_kill e stream w) = scripts w"
  "now (after_kill e stream w) = now w"
  by (auto simp: after_kill_def killCommands_def exec_def split: prod.splits sum.splits)

lemma after_kill_history:
  "take (Suc (length (history w))) (history (after_kill e stream w)) = history w @ [Exec (firstKill e stream)]"
  by (auto simp: after_kill_def killCommands_def firstKill_def exec_def split: prod.splits sum.splits)

lemma getStreamById_after_kill [simp]:
  "getStreamById e (after_kill e stream w) j = getStreamById e w j"
  by (rule getStreamById_cong) (simp add: after_kill_frame)

lemma set_active_fields:
  "spread stream (no_fields\<lparr>active_opt := Some b\<rparr>) = stream\<lparr>active := b\<rparr>"
  by (simp add: spread_def no_fields_def or_else_def)

lemma updateStream_set_active:
  assumes "getStreamById e w i = Some stream"
  shows "getStreamById e (snd (updateStream e i (no_fields\<lparr>active_opt := Some b\<rparr>) w)) i
           = Some (stream\<lparr>active := b, updatedAt := now w\<rparr>)"
    and "scripts (snd (updateStream e i (no_fields\<lparr>active_opt := Some b\<rparr>) w)) = scripts w"
    and "map id_str (streams (snd (updateStream e i (no_fields\<lparr>active_opt := Some b\<rparr>) w)))
           = map id_str (streams w)"
    and "history (snd (updateStream e i (no_fields\<lparr>active_opt := Some b\<rparr>) w))
           = history w @ [Write (STREAMS_FILE e)]"
proof -
  let ?P = "\<lambda>s. id_str s = i"
  note rd = getStreamById_readable [OF assms]
  from assms obtain n where n: "findIndex ?P (streams w) = Some n" "n < length (streams w)"
      "streams w ! n = stream"
    unfolding getStreamById_def rd by (blast dest: find_Some_findIndex)
  have idi: "id_str stream = i"
    using assms unfolding getStreamById_def rd by (rule find_Some_holds)
  have u: "snd (updateStream e i (no_fields\<lparr>active_opt := Some b\<rparr>) w)
             = w\<lparr>streams := (streams w)[n := stream\<lparr>active := b, updatedAt := now w\<rparr>],
                  history := history w @ [Write (STREAMS_FILE e)]\<rparr>"
    by (simp add: updateStream_def rd Let_def n set_active_fields)
       (simp add: no_fields_def truthy_def)
  show "getStreamById e (snd (updateStream e i (no_fields\<lparr>active_opt := Some b\<rparr>) w)) i
           = Some (stream\<lparr>active := b, updatedAt := now w\<rparr>)"
    unfolding u getStreamById_def rd
    using find_update_at_findIndex [OF n(1), of "stream\<lparr>active := b, updatedAt := now w\<rparr>"] idi
    by simp
  show "scripts (snd (updateStream e i (no_fields\<lparr>active_opt := Some b\<rparr>) w)) = scripts w"
    unfolding u by simp
  show "map id_str (streams (snd (updateStream e i (no_fields\<lparr>active_opt := Some b\<rparr>) w)))
           = map id_str (streams w)"
    unfolding u using n idi by (simp add: map_update list_update_same_conv)
  show "history (snd (updateStream e i (no_fields\<lparr>active_opt := Some b\<rparr>) w))
           = history w @ [Write (STREAMS_FILE e)]"
    unfolding u by simp
qed

text \<open>
  C10.  Log retrieval is total and tolerant: it returns the empty list when the log file
  does not exist and when reading it throws, and the lines that are not valid JSON
  neither fail the retrieval nor count against the limit: the result is the one for
  the file with those lines taken out.
\<close>

theorem getStreamLogs_total_and_tolerant:
  "getStreamLogs e JSON_parse (w\<lparr>logs := (logs w)(i := None)\<rparr>) i limit = [] \<and>
   getStreamLogs (e\<lparr>read_throws := \<lambda>p. Some x\<rparr>) JSON_parse w i limit = [] \<and>
   getStreamLogs e JSON_parse (w\<lparr>logs := (logs w)(i \<mapsto> drop_invalid JSON_parse data)\<rparr>) i limit
     = getStreamLogs e JSON_parse (w\<lparr>logs := (logs w)(i \<mapsto> data)\<rparr>) i limit"
proof (intro conjI)
  show "getStreamLogs e JSON_parse (w\<lparr>logs := (logs w)(i := None)\<rparr>) i limit = []"
    by (simp add: getStreamLogs_def)
  show "getStreamLogs (e\<lparr>read_throws := \<lambda>p. Some x\<rparr>) JSON_parse w i limit = []"
    by (simp add: getStreamLogs_def readLogFile_def)
  show "getStreamLogs e JSON_parse (w\<lparr>logs := (logs w)(i \<mapsto> drop_invalid JSON_parse data)\<rparr>) i limit
     = getStreamLogs e JSON_parse (w\<lparr>logs := (logs w)(i \<mapsto> data)\<rparr>) i limit"
  proof -
    have "List.map_filter JSON_parse (nonblank_lines (drop_invalid JSON_parse data))
            = List.map_filter JSON_parse (nonblank_lines data)"
      by (simp only: nonblank_lines_drop_invalid map_filter_filter_valid)
    then show ?thesis
      by (simp add: getStreamLogs_eq log_records_def readLogFile_def split: option.splits)
  qed
qed

subsection \<open>Updating a stream\<close>

text \<open>A payload without an id field leaves the id alone.\<close>

lemma updateStream_keeps_id:
  assumes "updateStream e i d w = (Some s, w')" and "id_opt d = None"
  shows "id_str s = i"
proof -
  let ?P = "\<lambda>s. id_str s = i"
  from assms(1) obtain n where n: "findIndex ?P (getAllStreams e w) = Some n"
    by (auto simp: updateStream_def Let_def split: option.splits)
  then have "find ?P (getAllStreams e w) \<noteq> None" by (simp flip: findIndex_find_None)
  then obtain y where y: "find ?P (getAllStreams e w) = Some y" by blast
  from find_Some_findIndex [OF y] n have "getAllStreams e w ! n = y" by auto
  moreover have "id_str y = i" using y by (rule find_Some_holds)
  ultimately show ?thesis
    using assms n by (auto simp: updateStream_def Let_def spread_def or_else_def)
qed

text \<open>
  C5.  The claim is that an update preserves the stream's id whatever the payload holds.
  The payload is spread over the stored stream and only \<open>updatedAt\<close> is set after the
  spread, so an id field in the payload replaces the id: updating stream \<open>s1\<close> with the
  payload \<^verbatim>\<open>{"id": "s2"}\<close> stores a stream with id \<open>s2\<close>, and \<open>s1\<close> is no longer found.
\<close>

theorem updateStream_overwrites_id:
  "getStreamById env_kill_fails ex_running ''s1'' = Some ex_stream \<and>
   map id_str (streams (snd (updateStream env_kill_fails ''s1'' (no_fields\<lparr>id_opt := Some ''s2''\<rparr>) ex_running)))
     = [''s2''] \<and>
   getStreamById env_kill_fails (snd (updateStream env_kill_fails ''s1'' (no_fields\<lparr>id_opt := Some ''s2''\<rparr>) ex_running)) ''s1''
     = None"
  by (simp add: updateStream_def getStreamById_def ex_running_def ex_stream_def
      no_fields_def spread_def or_else_def truthy_def Let_def)

subsection \<open>Stopping and starting\<close>

lemma stopStream_unknown: "getStreamById e w i = None \<Longrightarrow> stopStream e i w = (False, w)"
  by (simp add: stopStream_def)

lemma stopStream_exists:
  assumes "getStreamById e w i = Some stream"
  shows "fst (stopStream e i w) = True"
    and "getStreamById e (snd (stopStream e i w)) i = Some (stream\<lparr>active := False, updatedAt := now w\<rparr>)"
    and "procs (snd (stopStream e i w)) = procs (after_kill e stream w)"
    and "history (snd (stopStream e i w)) = history (after_kill e stream w) @ stop_events e stream i w"
    and "now (snd (stopStream e i w)) = now w"
    and "scripts (snd (stopStream e i w)) = scripts w"
    and "map id_str (streams (snd (stopStream e i w))) = map id_str (streams w)"
    and "logs (snd (stopStream e i w))
           = (logs w)(i \<mapsto> or_else (logs w i) [] @ JSON_stringify (stop_entry e stream w) @ [CHR 0x0A])"
proof -
  let ?off = "no_fields\<lparr>active_opt := Some False\<rparr>"
  let ?k = "after_kill e stream w"
  have k: "getStreamById e ?k i = Some stream" using assms by simp
  show "fst (stopStream e i w) = True"
    by (simp add: stopStream_def assms Let_def split: sum.splits prod.splits)
  show "getStreamById e (snd (stopStream e i w)) i = Some (stream\<lparr>active := False, updatedAt := now w\<rparr>)"
  proof (cases "killCommands e stream w")
    case (Inr w1)
    then have w1: "w1 = ?k" by (simp add: after_kill_def)
    show ?thesis
      using updateStream_set_active(1) [OF k, of False]
      by (simp add: stopStream_def assms Inr Let_def w1 after_kill_frame)
  next
    case (Inl xw)
    obtain x w1 where xw: "xw = (x, w1)" by (cases xw)
    have w1: "w1 = ?k" by (simp add: after_kill_def Inl xw)
    have "getStreamById e (appendToLog e i en ?k) i = Some stream" for en using k by simp
    from updateStream_set_active(1) [OF this, of False]
    show ?thesis
      by (simp add: stopStream_def assms Inl xw Let_def w1 appendToLog_frame after_kill_frame)
  qed
  show "procs (snd (stopStream e i w)) = procs ?k"
    by (auto simp: stopStream_def assms Let_def after_kill_def updateStream_frame appendToLog_frame
        split: sum.splits prod.splits)
  show "history (snd (stopStream e i w)) = history ?k @ stop_events e stream i w"
  proof (cases "killCommands e stream w")
    case (Inr w1)
    then have w1: "w1 = ?k" by (simp add: after_kill_def)
    show ?thesis
      using updateStream_set_active(4) [OF k, of False]
      by (simp add: stopStream_def assms Inr Let_def w1 after_kill_frame appendToLog_history
          updateStream_frame stop_events_def log_events_def)
  next
    case (Inl xw)
    obtain x w1 where xw: "xw = (x, w1)" by (cases xw)
    have w1: "w1 = ?k" by (simp add: after_kill_def Inl xw)
    have "getStreamById e (appendToLog e i en ?k) i = Some stream" for en using k by simp
    from updateStream_set_active(4) [OF this, of False]
    show ?thesis
      by (simp add: stopStream_def assms Inl xw Let_def w1 appendToLog_history after_kill_frame
          stop_events_def log_events_def)
  qed
  show "now (snd (stopStream e i w)) = now w"
    using after_kill_frame(4) [of e stream w]
    by (auto simp: stopStream_def assms Let_def after_kill_def updateStream_frame appendToLog_frame
        split: sum.splits prod.splits)
  show "scripts (snd (stopStream e i w)) = scripts w"
  proof (cases "killCommands e stream w")
    case (Inr w1)
    then have w1: "w1 = ?k" by (simp add: after_kill_def)
    show ?thesis
      using updateStream_set_active(2) [OF k, of False]
      by (simp add: stopStream_def assms Inr Let_def w1 after_kill_frame appendToLog_frame)
  next
    case (Inl xw)
    obtain x w1 where xw: "xw = (x, w1)" by (cases xw)
    have w1: "w1 = ?k" by (simp add: after_kill_def Inl xw)
    have "getStreamById e (appendToLog e i en ?k) i = Some stream" for en using k by simp
    from updateStream_set_active(2) [OF this, of False]
    show ?thesis
      by (simp add: stopStream_def assms Inl xw Let_def w1 appendToLog_frame after_kill_frame)
  qed
  show "map id_str (streams (snd (stopStream e i w))) = map id_str (streams w)"
  proof (cases "killCommands e stream w")
    case (Inr w1)
    then have w1: "w1 = ?k" by (simp add: after_kill_def)
    show ?thesis
      using updateStream_set_active(3) [OF k, of False]
      by (simp add: stopStream_def assms Inr Let_def w1 after_kill_frame appendToLog_frame)
  next
    case (Inl xw)
    obtain x w1 where xw: "xw = (x, w1)" by (cases xw)
    have w1: "w1 = ?k" by (simp add: after_kill_def Inl xw)
    have "getStreamById e (appendToLog e i en ?k) i = Some stream" for en using k by simp
    from updateStream_set_active(3) [OF this, of False]
    show ?thesis
      by (simp add: stopStream_def assms Inl xw Let_def w1 appendToLog_frame after_kill_frame)
  qed
  show "logs (snd (stopStream e i w))
           = (logs w)(i \<mapsto> or_else (logs w i) [] @ JSON_stringify (stop_entry e stream w) @ [CHR 0x0A])"
  proof (cases "killCommands e stream w")
    case (Inr w1)
    then have w1: "w1 = ?k" by (simp add: after_kill_def)
    show ?thesis
      by (simp add: stopStream_def assms Inr Let_def w1 after_kill_frame appendToLog_logs
          updateStream_frame stop_entry_def)
  next
    case (Inl xw)
    obtain x w1 where xw: "xw = (x, w1)" by (cases xw)
    have w1: "w1 = ?k" by (simp add: after_kill_def Inl xw)
    show ?thesis
      by (simp add: stopStream_def assms Inl xw Let_def w1 after_kill_frame appendToLog_logs
          updateStream_frame stop_entry_def)
  qed
qed

lemma startStream_unknown: "getStreamById e w i = None \<Longrightarrow> startStream e i w = (False, w)"
  by (simp add: startStream_def)




subsection \<open>Deleting and restarting\<close>

lemma after_kill_history_ex:
  "\<exists>ks. history (after_kill e stream w) = history w @ Exec (firstKill e stream) # ks"
  by (auto simp: after_kill_def killCommands_def firstKill_def exec_def split: prod.splits sum.splits)

lemma deleteStream_unknown:
  assumes "getStreamById e w i = None"
  shows "deleteStream e i w = (False, w)"
proof -
  have "filter (\<lambda>stream. id_str stream \<noteq> i) (getAllStreams e w) = getAllStreams e w"
    using assms by (auto simp: getStreamById_def find_None_iff filter_id_conv)
  then show ?thesis
    by (simp add: deleteStream_def stopStream_unknown [OF assms] Let_def)
qed

lemma deleteStream_exists:
  assumes "getStreamById e w i = Some stream"
  shows "fst (deleteStream e i w) = True"
    and "getStreamById e (snd (deleteStream e i w)) i = None"
    and "scripts (snd (deleteStream e i w)) i = None"
    and "logs (snd (deleteStream e i w)) i = None"
    and "procs (snd (deleteStream e i w)) = procs (after_kill e stream w)"
    and "history (snd (deleteStream e i w))
           = history (after_kill e stream w) @ stop_events e stream i w @ [Write (STREAMS_FILE e)] @
             (if scripts w i = None then [] else [Unlink (scriptPath e i)]) @ [Unlink (logPath e i)]"
proof -
  let ?w1 = "snd (stopStream e i w)"
  note st = stopStream_exists [OF assms]
  note rd = getStreamById_readable [OF assms, of ?w1]
  have "find (\<lambda>s. id_str s = i) (streams ?w1) \<noteq> None"
    using st(2) by (simp add: getStreamById_def rd)
  then obtain y where "y \<in> set (streams ?w1)" "id_str y = i"
    by (auto simp: find_None_iff)
  then have "length (filter (\<lambda>stream. id_str stream \<noteq> i) (streams ?w1)) < length (streams ?w1)"
    by (intro length_filter_less [of y]) simp_all
  then have ne: "length (filter (\<lambda>stream. id_str stream \<noteq> i) (streams ?w1)) \<noteq> length (streams ?w1)"
    by simp
  have lg: "logs ?w1 i \<noteq> None" by (simp add: st(8))
  show "fst (deleteStream e i w) = True"
    using ne by (simp add: deleteStream_def rd Let_def)
  show "getStreamById e (snd (deleteStream e i w)) i = None"
    using ne by (auto simp: deleteStream_def rd getStreamById_def getStreamById_readable [OF assms] Let_def find_None_iff)
  show "scripts (snd (deleteStream e i w)) i = None"
    using ne by (auto simp: deleteStream_def rd Let_def)
  show "logs (snd (deleteStream e i w)) i = None"
    using ne by (auto simp: deleteStream_def rd Let_def)
  show "procs (snd (deleteStream e i w)) = procs (after_kill e stream w)"
    using ne st(3) by (auto simp: deleteStream_def rd Let_def)
  show "history (snd (deleteStream e i w))
           = history (after_kill e stream w) @ stop_events e stream i w @ [Write (STREAMS_FILE e)] @
             (if scripts w i = None then [] else [Unlink (scriptPath e i)]) @ [Unlink (logPath e i)]"
    using ne lg st(4) st(6) by (auto simp: deleteStream_def rd Let_def)
qed


subsection \<open>Stopping when the kill command fails\<close>

text \<open>
  C9.  For every existing stream, \<^verbatim>\<open>stopStream\<close> returns true and leaves the stream
  marked inactive, also when a kill command throws: the catch block appends the failure
  to the log as a warning, and the stored stream is inactive afterwards.
\<close>

theorem stopStream_inactive_despite_kill_error:
  assumes "getStreamById e w i = Some stream"
  shows "fst (stopStream e i w) = True \<and>
         getStreamById e (snd (stopStream e i w)) i = Some (stream\<lparr>active := False, updatedAt := now w\<rparr>) \<and>
         (\<forall>x w1. killCommands e stream w = Inl (x, w1) \<longrightarrow>
            logs (snd (stopStream e i w)) i =
              Some (or_else (logs w i) [] @
                    JSON_stringify \<lparr>timestamp = now w,
                                     message = ''Error while stopping stream: '' @ exn_text x,
                                     log_type = Warning\<rparr> @ [CHR 0x0A]))"
  using stopStream_exists(1,2,8) [OF assms] by (simp add: stop_entry_def)

theorem stopStream_inactive_despite_kill_error_witness:
  "getStreamById env_kill_fails ex_running ''s1'' = Some ex_stream \<and>
   killCommands env_kill_fails ex_stream ex_running
     = Inl (Exn (''Error: Command failed: '' @ pkillCmd ex_stream),
            ex_running\<lparr>history := [Exec (pkillCmd ex_stream)]\<rparr>) \<and>
   fst (stopStream env_kill_fails ''s1'' ex_running) = True \<and>
   getStreamById env_kill_fails (snd (stopStream env_kill_fails ''s1'' ex_running)) ''s1''
     = Some (ex_stream\<lparr>active := False, updatedAt := 5000\<rparr>) \<and>
   logs (snd (stopStream env_kill_fails ''s1'' ex_running)) ''s1''
     = Some (JSON_stringify \<lparr>timestamp = 5000,
               message = ''Error while stopping stream: Error: Command failed: '' @ pkillCmd ex_stream,
               log_type = Warning\<rparr> @ [CHR 0x0A])"
proof -
  have h: "getStreamById env_kill_fails ex_running ''s1'' = Some ex_stream"
    by (simp add: getStreamById_def ex_running_def ex_stream_def)
  have k: "killCommands env_kill_fails ex_stream ex_running
     = Inl (Exn (''Error: Command failed: '' @ pkillCmd ex_stream),
            ex_running\<lparr>history := [Exec (pkillCmd ex_stream)]\<rparr>)"
    by (simp add: killCommands_def exec_def env_kill_fails_def ex_running_def)
  have n: "now ex_running = 5000" "logs ex_running ''s1'' = Some []"
    by (simp_all add: ex_running_def)
  from stopStream_inactive_despite_kill_error [OF h] h k n
  show ?thesis by (simp add: or_else_def exn_text_def)
qed

subsection \<open>Stopping a stream that is not running\<close>

text \<open>
  C3 as stated fails: \<^verbatim>\<open>stopStream\<close> never looks at the \<open>active\<close> flag or at the
  process table.  For the stopped stream of \<open>ex_stopped\<close> it returns true, runs
  \<^verbatim>\<open>pkill\<close>, rewrites the stream record with a new \<open>updatedAt\<close> and appends a
  warning to the log.
\<close>

theorem stopStream_already_stopped_counterexample:
  "getStreamById env_kill_fails ex_stopped ''s1'' = Some (ex_stream\<lparr>active := False\<rparr>) \<and>
   live_of ''s1'' ex_stopped = [] \<and>
   fst (stopStream env_kill_fails ''s1'' ex_stopped) = True \<and>
   history (snd (stopStream env_kill_fails ''s1'' ex_stopped))
     = [Exec (pkillCmd ex_stream), Append ''/app/data/logs/s1.log'', Write ''/app/data/streams.json''] \<and>
   updatedAt (ex_stream\<lparr>active := False\<rparr>) = 1 \<and>
   getStreamById env_kill_fails (snd (stopStream env_kill_fails ''s1'' ex_stopped)) ''s1''
     = Some (ex_stream\<lparr>active := False, updatedAt := 5000\<rparr>) \<and>
   logs ex_stopped ''s1'' = Some [] \<and>
   logs (snd (stopStream env_kill_fails ''s1'' ex_stopped)) ''s1''
     = Some (JSON_stringify \<lparr>timestamp = 5000,
               message = ''Error while stopping stream: Error: Command failed: '' @ pkillCmd ex_stream,
               log_type = Warning\<rparr> @ [CHR 0x0A])"
  by (simp add: getStreamById_def getAllStreams_def stopStream_def updateStream_def appendToLog_def
      killCommands_def exec_def pkillCmd_def no_fields_def spread_def or_else_def truthy_def
      live_of_def exn_text_def logPath_def path_join_def Let_def
      env_kill_fails_def ex_stream_def ex_stopped_def)

text \<open>
  C3, amended.  \<^verbatim>\<open>stopStream\<close> does not depend on whether the stream is running.  For
  an unknown id it returns false and changes nothing.  For every existing stream, also
  one already stopped, it returns true, issues the kill command first, rewrites the
  streams file with the stream inactive and \<open>updatedAt\<close> set to the current time, and
  appends one entry to the stream's log.
\<close>

theorem stopStream_whatever_the_state:
  "(getStreamById e w i = None \<longrightarrow> stopStream e i w = (False, w)) \<and>
   (getStreamById e w i = Some stream \<longrightarrow>
      fst (stopStream e i w) = True \<and>
      take (Suc (length (history w))) (history (snd (stopStream e i w)))
        = history w @ [Exec (firstKill e stream)] \<and>
      Write (STREAMS_FILE e) \<in> set (drop (length (history w)) (history (snd (stopStream e i w)))) \<and>
      getStreamById e (snd (stopStream e i w)) i
        = Some (stream\<lparr>active := False, updatedAt := now w\<rparr>) \<and>
      logs (snd (stopStream e i w)) i
        = Some (or_else (logs w i) [] @ JSON_stringify (stop_entry e stream w) @ [CHR 0x0A]))"
proof (intro conjI impI)
  assume "getStreamById e w i = None"
  then show "stopStream e i w = (False, w)" by (rule stopStream_unknown)
next
  assume s: "getStreamById e w i = Some stream"
  note st = stopStream_exists [OF s]
  obtain ks where ks: "history (after_kill e stream w) = history w @ Exec (firstKill e stream) # ks"
    using after_kill_history_ex by blast
  show "fst (stopStream e i w) = True" by (rule st(1))
  show "take (Suc (length (history w))) (history (snd (stopStream e i w)))
        = history w @ [Exec (firstKill e stream)]"
    by (simp add: st(4) ks)
  show "Write (STREAMS_FILE e) \<in> set (drop (length (history w)) (history (snd (stopStream e i w))))"
    by (simp add: st(4) ks stop_events_def split: sum.splits)
  show "getStreamById e (snd (stopStream e i w)) i = Some (stream\<lparr>active := False, updatedAt := now w\<rparr>)"
    by (rule st(2))
  show "logs (snd (stopStream e i w)) i
        = Some (or_else (logs w i) [] @ JSON_stringify (stop_entry e stream w) @ [CHR 0x0A])"
    by (simp add: st(8))
qed

theorem stopStream_whatever_the_state_witness:
  "getStreamById env_kill_works ex_stopped ''s9'' = None \<and>
   stopStream env_kill_works ''s9'' ex_stopped = (False, ex_stopped) \<and>
   getStreamById env_kill_works ex_stopped ''s1'' = Some (ex_stream\<lparr>active := False\<rparr>) \<and>
   fst (stopStream env_kill_works ''s1'' ex_stopped) = True \<and>
   take 1 (history (snd (stopStream env_kill_works ''s1'' ex_stopped))) = [Exec (pkillCmd ex_stream)] \<and>
   Write ''/app/data/streams.json'' \<in> set (history (snd (stopStream env_kill_works ''s1'' ex_stopped))) \<and>
   getStreamById env_kill_works (snd (stopStream env_kill_works ''s1'' ex_stopped)) ''s1''
     = Some (ex_stream\<lparr>active := False, updatedAt := 5000\<rparr>) \<and>
   logs (snd (stopStream env_kill_works ''s1'' ex_stopped)) ''s1''
     = Some (JSON_stringify \<lparr>timestamp = 5000, message = ''Stream stopped'', log_type = Info\<rparr>
             @ [CHR 0x0A])"
proof -
  have h0: "getStreamById env_kill_works ex_stopped ''s9'' = None"
    by (simp add: getStreamById_def ex_stopped_def ex_stream_def)
  have h1: "getStreamById env_kill_works ex_stopped ''s1'' = Some (ex_stream\<lparr>active := False\<rparr>)"
    by (simp add: getStreamById_def ex_stopped_def ex_stream_def)
  have v: "now ex_stopped = 5000" "logs ex_stopped ''s1'' = Some []" "history ex_stopped = []"
      "STREAMS_FILE env_kill_works = ''/app/data/streams.json''"
      "firstKill env_kill_works (ex_stream\<lparr>active := False\<rparr>) = pkillCmd ex_stream"
      "stop_entry env_kill_works (ex_stream\<lparr>active := False\<rparr>) ex_stopped
         = \<lparr>timestamp = 5000, message = ''Stream stopped'', log_type = Info\<rparr>"
    by (simp_all add: ex_stopped_def env_kill_works_def firstKill_def pkillCmd_def ex_stream_def
        stop_entry_def killCommands_def exec_def)
  from stopStream_whatever_the_state [where w = ex_stopped and i = "''s9''" and e = env_kill_works]
       stopStream_whatever_the_state [where w = ex_stopped and i = "''s1''" and e = env_kill_works
         and stream = "ex_stream\<lparr>active := False\<rparr>"]
       h0 h1 v
  show ?thesis by (simp add: or_else_def)
qed

subsection \<open>Starting a stream\<close>




subsection \<open>Deleting a stream\<close>

text \<open>
  C4 as stated fails: the stop that precedes the removal swallows a failing kill command,
  so the removal goes ahead with the process alive.  On \<open>env_kill_fails\<close> the delete
  of the running stream returns true, removes the record, the script and the log, and
  the stream's process is still in the process table.
\<close>

theorem deleteStream_process_survives_counterexample:
  "live_of ''s1'' ex_running = [ex_proc] \<and>
   fst (deleteStream env_kill_fails ''s1'' ex_running) = True \<and>
   streams (snd (deleteStream env_kill_fails ''s1'' ex_running)) = [] \<and>
   scripts (snd (deleteStream env_kill_fails ''s1'' ex_running)) ''s1'' = None \<and>
   logs (snd (deleteStream env_kill_fails ''s1'' ex_running)) ''s1'' = None \<and>
   live_of ''s1'' (snd (deleteStream env_kill_fails ''s1'' ex_running)) = [ex_proc]"
  by (simp add: getStreamById_def getAllStreams_def deleteStream_def stopStream_def updateStream_def
      appendToLog_def killCommands_def exec_def pkillCmd_def no_fields_def spread_def or_else_def
      truthy_def live_of_def exn_text_def logPath_def scriptPath_def path_join_def Let_def
      env_kill_fails_def ex_stream_def ex_running_def ex_proc_def)

text \<open>
  C4, amended.  Deleting a stream first runs the stop, whose kill command comes before
  everything else, and only then removes the stream record and deletes the script and
  log files; the process table after the delete is the one the kill commands left, so
  a process survives the delete exactly when it survived the kill.  The delete returns
  false, and changes nothing, when the id does not exist.
\<close>

theorem deleteStream_stops_then_cleans:
  "(getStreamById e w i = None \<longrightarrow> deleteStream e i w = (False, w)) \<and>
   (getStreamById e w i = Some stream \<longrightarrow>
      fst (deleteStream e i w) = True \<and>
      getStreamById e (snd (deleteStream e i w)) i = None \<and>
      scripts (snd (deleteStream e i w)) i = None \<and>
      logs (snd (deleteStream e i w)) i = None \<and>
      procs (snd (deleteStream e i w)) = procs (after_kill e stream w) \<and>
      take (Suc (length (history w))) (history (snd (deleteStream e i w)))
        = history w @ [Exec (firstKill e stream)] \<and>
      history (snd (deleteStream e i w))
        = history (after_kill e stream w) @ stop_events e stream i w @ [Write (STREAMS_FILE e)] @
          (if scripts w i = None then [] else [Unlink (scriptPath e i)]) @ [Unlink (logPath e i)])"
proof (intro conjI impI)
  assume "getStreamById e w i = None"
  then show "deleteStream e i w = (False, w)" by (rule deleteStream_unknown)
next
  assume s: "getStreamById e w i = Some stream"
  note d = deleteStream_exists [OF s]
  obtain ks where ks: "history (after_kill e stream w) = history w @ Exec (firstKill e stream) # ks"
    using after_kill_history_ex by blast
  show "fst (deleteStream e i w) = True" by (rule d(1))
  show "getStreamById e (snd (deleteStream e i w)) i = None" by (rule d(2))
  show "scripts (snd (deleteStream e i w)) i = None" by (rule d(3))
  show "logs (snd (deleteStream e i w)) i = None" by (rule d(4))
  show "procs (snd (deleteStream e i w)) = procs (after_kill e stream w)" by (rule d(5))
  show "take (Suc (length (history w))) (history (snd (deleteStream e i w)))
        = history w @ [Exec (firstKill e stream)]"
    by (simp add: d(6) ks)
  show "history (snd (deleteStream e i w))
        = history (after_kill e stream w) @ stop_events e stream i w @ [Write (STREAMS_FILE e)] @
          (if scripts w i = None then [] else [Unlink (scriptPath e i)]) @ [Unlink (logPath e i)]"
    by (rule d(6))
qed

theorem deleteStream_stops_then_cleans_witness:
  "getStreamById env_kill_works ex_running ''s9'' = None \<and>
   deleteStream env_kill_works ''s9'' ex_running = (False, ex_running) \<and>
   getStreamById env_kill_works ex_running ''s1'' = Some ex_stream \<and>
   fst (deleteStream env_kill_works ''s1'' ex_running) = True \<and>
   getStreamById env_kill_works (snd (deleteStream env_kill_works ''s1'' ex_running)) ''s1'' = None \<and>
   scripts (snd (deleteStream env_kill_works ''s1'' ex_running)) ''s1'' = None \<and>
   logs (snd (deleteStream env_kill_works ''s1'' ex_running)) ''s1'' = None \<and>
   procs (snd (deleteStream env_kill_works ''s1'' ex_running)) = [] \<and>
   history (snd (deleteStream env_kill_works ''s1'' ex_running))
     = [Exec (pkillCmd ex_stream), Write ''/app/data/streams.json'',
        Append ''/app/data/logs/s1.log'', Write ''/app/data/streams.json'',
        Unlink ''/app/data/scripts/s1.sh'', Unlink ''/app/data/logs/s1.log'']"
proof -
  have h0: "getStreamById env_kill_works ex_running ''s9'' = None"
    by (simp add: getStreamById_def ex_running_def ex_stream_def)
  have h1: "getStreamById env_kill_works ex_running ''s1'' = Some ex_stream"
    by (simp add: getStreamById_def ex_running_def ex_stream_def)
  have k: "killCommands env_kill_works ex_stream ex_running
             = Inr (ex_running\<lparr>procs := [], history := [Exec (pkillCmd ex_stream)]\<rparr>)"
    by (simp add: killCommands_def exec_def env_kill_works_def ex_running_def ex_proc_def
        ex_stream_def pkillCmd_def)
  have v: "after_kill env_kill_works ex_stream ex_running
             = ex_running\<lparr>procs := [], history := [Exec (pkillCmd ex_stream)]\<rparr>"
      "stop_events env_kill_works ex_stream ''s1'' ex_running
             = [Write ''/app/data/streams.json'', Append ''/app/data/logs/s1.log'']"
      "scripts ex_running ''s1'' \<noteq> None" "STREAMS_FILE env_kill_works = ''/app/data/streams.json''"
      "scriptPath env_kill_works ''s1'' = ''/app/data/scripts/s1.sh''"
      "logPath env_kill_works ''s1'' = ''/app/data/logs/s1.log''"
    by (simp_all add: after_kill_def stop_events_def log_events_def k)
       (simp_all add: ex_running_def env_kill_works_def scriptPath_def logPath_def path_join_def)
  from deleteStream_stops_then_cleans [where w = ex_running and i = "''s9''" and e = env_kill_works]
       deleteStream_stops_then_cleans [where w = ex_running and i = "''s1''" and e = env_kill_works
         and stream = ex_stream] h0 h1 v
  show ?thesis by simp
qed

subsection \<open>Restarting a stream\<close>




subsection \<open>Statistics when a probe fails\<close>

lemma try_catch_total:
  "\<exists>v. try_catch body (\<lambda>x. Inr d) = Inr v"
  by (cases body) (simp_all add: try_catch_def)

lemma getSystemStats_total: "\<exists>s. getSystemStats e w = Inr s"
  unfolding getSystemStats_def by (rule try_catch_total)

lemma getStreamProcessInfo_total: "\<exists>r. getStreamProcessInfo e w i = Inr r"
  unfolding getStreamProcessInfo_def
  by (auto simp: try_catch_def split: option.splits sum.splits)

lemma getSystemStats_shape:
  "platform e \<noteq> OtherPlatform \<Longrightarrow>
   getSystemStats e w =
     Inr (stats_of (if platform e = Win32 then swallow (windowsStats e w initial_vars)
                    else swallow (unixStats e w initial_vars)))"
  by (cases "platform e") (simp_all add: getSystemStats_def try_catch_def)

text \<open>What a block of \<^verbatim>\<open>getSystemStats\<close> has not reached keeps its initial value.\<close>

lemma stats_of_unset:
  "mem_unset v \<Longrightarrow> memory (stats_of v) = zero_usage"
  "disk_unset v \<Longrightarrow> disk (stats_of v) = zero_usage"
  "uptime (stats_of v) = uptimeString v"
  "stats_of initial_vars = zero_stats"
  by (simp_all add: stats_of_def zero_usage_def mem_unset_def disk_unset_def initial_vars_def
      zero_stats_def)

lemma initial_unset: "mem_unset initial_vars" "disk_unset initial_vars" "uptimeString initial_vars = []"
  by (simp_all add: mem_unset_def disk_unset_def initial_vars_def)

lemma keeps_and_then:
  assumes "keeps P step" and "keeps P next"
  shows "keeps P (\<lambda>v. and_then (step v) next)"
  unfolding keeps_def
proof (intro allI impI)
  fix v assume "P v"
  then have s: "P (swallow (step v))" using assms(1) by (simp add: keeps_def)
  show "P (swallow (and_then (step v) next))"
  proof (cases "step v")
    case (Inl xv)
    with s show ?thesis by (simp add: and_then_def)
  next
    case (Inr v1)
    with s have "P v1" by (simp add: swallow_def)
    then have "P (swallow (next v1))" using assms(2) by (simp add: keeps_def)
    with Inr show ?thesis by (simp add: and_then_def)
  qed
qed

lemma swallow_throw: "step v = Inl (x, v) \<Longrightarrow> swallow (and_then (step v) next) = v"
  by (simp add: and_then_def swallow_def)

lemma swallow_second_throws:
  assumes "\<And>v1. next v1 = Inl (x, v1)"
  shows "swallow (and_then (step v) next) = swallow (step v)"
proof (cases "step v")
  case (Inl xv)
  then show ?thesis by (simp add: and_then_def)
next
  case (Inr v1)
  then show ?thesis by (simp add: and_then_def assms swallow_def)
qed

lemma and_then_throws:
  assumes "\<And>v1. step v1 = Inl (x, v1)"
  shows "and_then (step v) next = Inl (x, v)"
  by (simp add: and_then_def assms)

lemma and_then_assoc:
  "and_then (and_then r f) g = and_then r (\<lambda>v. and_then (f v) g)"
  by (cases r) (simp_all add: and_then_def)

lemma windows_steps_throw:
  assumes "platform e = Win32"
  shows "probe e w (cpuCmd e) = Inl x \<Longrightarrow> windowsCpu e w v = Inl (x, v)"
    and "probe e w (memCmd e) = Inl x \<Longrightarrow> windowsMemory e w v = Inl (x, v)"
    and "probe e w (diskCmd e) = Inl x \<Longrightarrow> windowsDisk e w v = Inl (x, v)"
    and "probe e w uptimeCmd = Inl x \<Longrightarrow> windowsUptime e w v = Inl (x, v)"
  using assms
  by (simp_all add: windowsCpu_def windowsMemory_def windowsDisk_def windowsUptime_def
      cpuCmd_def memCmd_def diskCmd_def uptimeCmd_def)

lemma windows_steps_keep:
  "keeps mem_unset (windowsCpu e w)"
  "keeps disk_unset (windowsCpu e w)"
  "keeps (\<lambda>v. uptimeString v = []) (windowsCpu e w)"
  "keeps disk_unset (windowsMemory e w)"
  "keeps (\<lambda>v. uptimeString v = []) (windowsMemory e w)"
  "keeps (\<lambda>v. uptimeString v = []) (windowsDisk e w)"
  by (auto simp: keeps_def swallow_def windowsCpu_def windowsMemory_def windowsDisk_def
      mem_unset_def disk_unset_def split: sum.splits option.splits)

lemma windowsStats_throws:
  assumes p: "platform e = Win32"
  shows "probe e w (cpuCmd e) = Inl x \<Longrightarrow> swallow (windowsStats e w initial_vars) = initial_vars"
    and "probe e w (memCmd e) = Inl x \<Longrightarrow> mem_unset (swallow (windowsStats e w initial_vars))"
    and "probe e w (memCmd e) = Inl x \<or> probe e w (diskCmd e) = Inl x
           \<Longrightarrow> disk_unset (swallow (windowsStats e w initial_vars))"
    and "probe e w (memCmd e) = Inl x \<or> probe e w (diskCmd e) = Inl x \<or> probe e w uptimeCmd = Inl x
           \<Longrightarrow> uptimeString (swallow (windowsStats e w initial_vars)) = []"
proof -
  note t = windows_steps_throw [OF p]
  note k = windows_steps_keep [of e w]
  let ?c = "windowsCpu e w" and ?m = "windowsMemory e w" and ?d = "windowsDisk e w"
    and ?u = "windowsUptime e w"
  have cpu: "swallow (windowsStats e w v) = v" if "probe e w (cpuCmd e) = Inl x" for v
    unfolding windowsStats_def by (rule swallow_throw) (rule t(1) [OF that])
  have mem: "swallow (windowsStats e w v) = swallow (?c v)" if "probe e w (memCmd e) = Inl x" for v
    unfolding windowsStats_def
    by (rule swallow_second_throws) (rule and_then_throws, rule t(2) [OF that])
  have dsk: "swallow (windowsStats e w v) = swallow (and_then (?c v) ?m)"
    if "probe e w (diskCmd e) = Inl x" for v
  proof -
    have "windowsStats e w v = and_then (and_then (?c v) ?m) (\<lambda>v2. and_then (?d v2) ?u)"
      by (simp add: windowsStats_def and_then_assoc)
    moreover have "swallow (and_then (and_then (?c v) ?m) (\<lambda>v2. and_then (?d v2) ?u))
                     = swallow (and_then (?c v) ?m)"
      using swallow_second_throws [of "\<lambda>v2. and_then (?d v2) ?u" x "\<lambda>v. and_then (?c v) ?m" v]
        and_then_throws [of ?d x _ ?u] t(3) [OF that]
      by simp
    ultimately show ?thesis by simp
  qed
  have upt: "swallow (windowsStats e w v) = swallow (and_then (and_then (?c v) ?m) ?d)"
    if "probe e w uptimeCmd = Inl x" for v
  proof -
    have "windowsStats e w v = and_then (and_then (and_then (?c v) ?m) ?d) ?u"
      by (simp add: windowsStats_def and_then_assoc)
    moreover have "swallow (and_then (and_then (and_then (?c v) ?m) ?d) ?u)
                     = swallow (and_then (and_then (?c v) ?m) ?d)"
      using swallow_second_throws [of ?u x "\<lambda>v. and_then (and_then (?c v) ?m) ?d" v] t(4) [OF that]
      by simp
    ultimately show ?thesis by simp
  qed
  have kcm: "keeps disk_unset (\<lambda>v. and_then (?c v) ?m)"
      "keeps (\<lambda>v. uptimeString v = []) (\<lambda>v. and_then (?c v) ?m)"
    by (rule keeps_and_then, rule k, rule k)+
  have kcmd: "keeps (\<lambda>v. uptimeString v = []) (\<lambda>v. and_then (and_then (?c v) ?m) ?d)"
    by (rule keeps_and_then [OF kcm(2) k(6)])
  show "probe e w (cpuCmd e) = Inl x \<Longrightarrow> swallow (windowsStats e w initial_vars) = initial_vars"
    by (rule cpu)
  show "probe e w (memCmd e) = Inl x \<Longrightarrow> mem_unset (swallow (windowsStats e w initial_vars))"
    using k(1) by (simp add: mem keeps_def initial_unset)
  show "probe e w (memCmd e) = Inl x \<or> probe e w (diskCmd e) = Inl x
           \<Longrightarrow> disk_unset (swallow (windowsStats e w initial_vars))"
    using k(2) kcm(1) by (auto simp: mem dsk keeps_def initial_unset)
  show "probe e w (memCmd e) = Inl x \<or> probe e w (diskCmd e) = Inl x \<or> probe e w uptimeCmd = Inl x
           \<Longrightarrow> uptimeString (swallow (windowsStats e w initial_vars)) = []"
    using k(3) kcm(2) kcmd by (auto simp: mem dsk upt keeps_def initial_unset)
qed

lemma unix_steps_throw:
  assumes "platform e = Darwin \<or> platform e = Linux"
  shows "probe e w (cpuCmd e) = Inl x \<Longrightarrow> unixCpu e w v = Inl (x, v)"
    and "probe e w (memCmd e) = Inl x \<Longrightarrow> unixMemory e w v = Inl (x, v)"
    and "probe e w (diskCmd e) = Inl x \<Longrightarrow> unixDisk e w v = Inl (x, v)"
  using assms
  by (auto simp: unixCpu_def unixMemory_def unixDisk_def cpuCmd_def memCmd_def diskCmd_def)

lemma unix_steps_keep:
  "keeps mem_unset (unixCpu e w)"
  "keeps disk_unset (unixCpu e w)"
  "keeps (\<lambda>v. uptimeString v = []) (unixCpu e w)"
  "keeps disk_unset (unixMemory e w)"
  "keeps (\<lambda>v. uptimeString v = []) (unixMemory e w)"
  by (auto simp: keeps_def swallow_def unixCpu_def unixMemory_def
      mem_unset_def disk_unset_def split: sum.splits option.splits)

lemma unixStats_throws:
  assumes p: "platform e = Darwin \<or> platform e = Linux"
  shows "probe e w (cpuCmd e) = Inl x \<Longrightarrow> swallow (unixStats e w initial_vars) = initial_vars"
    and "probe e w (memCmd e) = Inl x \<Longrightarrow> mem_unset (swallow (unixStats e w initial_vars))"
    and "probe e w (memCmd e) = Inl x \<or> probe e w (diskCmd e) = Inl x
           \<Longrightarrow> disk_unset (swallow (unixStats e w initial_vars))"
    and "probe e w (memCmd e) = Inl x \<or> probe e w (diskCmd e) = Inl x
           \<Longrightarrow> uptimeString (swallow (unixStats e w initial_vars)) = []"
proof -
  note t = unix_steps_throw [OF p]
  note k = unix_steps_keep [of e w]
  let ?c = "unixCpu e w" and ?m = "unixMemory e w" and ?d = "unixDisk e w"
  have cpu: "swallow (unixStats e w v) = v" if "probe e w (cpuCmd e) = Inl x" for v
    unfolding unixStats_def by (rule swallow_throw) (rule t(1) [OF that])
  have mem: "swallow (unixStats e w v) = swallow (?c v)" if "probe e w (memCmd e) = Inl x" for v
    unfolding unixStats_def
    by (rule swallow_second_throws) (rule and_then_throws, rule t(2) [OF that])
  have dsk: "swallow (unixStats e w v) = swallow (and_then (?c v) ?m)"
    if "probe e w (diskCmd e) = Inl x" for v
  proof -
    have "unixStats e w v = and_then (and_then (?c v) ?m) ?d"
      by (simp add: unixStats_def and_then_assoc)
    moreover have "swallow (and_then (and_then (?c v) ?m) ?d) = swallow (and_then (?c v) ?m)"
      using swallow_second_throws [of ?d x "\<lambda>v. and_then (?c v) ?m" v] t(3) [OF that]
      by simp
    ultimately show ?thesis by simp
  qed
  have kcm: "keeps disk_unset (\<lambda>v. and_then (?c v) ?m)"
      "keeps (\<lambda>v. uptimeString v = []) (\<lambda>v. and_then (?c v) ?m)"
    by (rule keeps_and_then, rule k, rule k)+
  show "probe e w (cpuCmd e) = Inl x \<Longrightarrow> swallow (unixStats e w initial_vars) = initial_vars"
    by (rule cpu)
  show "probe e w (memCmd e) = Inl x \<Longrightarrow> mem_unset (swallow (unixStats e w initial_vars))"
    using k(1) by (simp add: mem keeps_def initial_unset)
  show "probe e w (memCmd e) = Inl x \<or> probe e w (diskCmd e) = Inl x
           \<Longrightarrow> disk_unset (swallow (unixStats e w initial_vars))"
    using k(2) kcm(1) by (auto simp: mem dsk keeps_def initial_unset)
  show "probe e w (memCmd e) = Inl x \<or> probe e w (diskCmd e) = Inl x
           \<Longrightarrow> uptimeString (swallow (unixStats e w initial_vars)) = []"
    using k(3) kcm(2) by (auto simp: mem dsk keeps_def initial_unset)
qed


lemma getStreamProcessInfo_probe_throws:
  assumes "getStreamById e w i = Some stream" and "probe e w (findCmd e stream) = Inl x"
  shows "getStreamProcessInfo e w i = Inr not_running"
proof -
  have "windowsProcessInfo e w stream i = Inl x" if "platform e = Win32"
    using assms(2) that by (simp add: findCmd_def windowsProcessInfo_def)
  moreover have "unixProcessInfo e w stream i = Inl x" if "platform e \<noteq> Win32"
    using assms(2) that by (simp add: findCmd_def unixProcessInfo_def)
  ultimately show ?thesis
    using assms(1) by (simp add: getStreamProcessInfo_def try_catch_def)
qed

lemma windowsProcessInfo_by_pid_throws:
  assumes "\<forall>c. by_pid c \<longrightarrow> (\<exists>x. probe e w c = Inl x)"
  shows "try_catch (windowsProcessInfo e w stream i) (\<lambda>x. Inr not_running) = Inr not_running"
proof (cases "probe e w (wmicFindCmd stream)")
  case (Inl x)
  then show ?thesis by (simp add: windowsProcessInfo_def try_catch_def)
next
  case (Inr out)
  show ?thesis
  proof (cases "search digits_to_eol_at out")
    case None
    with Inr show ?thesis by (simp add: windowsProcessInfo_def try_catch_def)
  next
    case (Some found)
    have "by_pid (''wmic process where processid='' @ found @ '' get workingsetsize,usermodetime'')"
      by (simp add: by_pid_def)
    with assms obtain x where
      "probe e w (''wmic process where processid='' @ found @ '' get workingsetsize,usermodetime'') = Inl x"
      by blast
    with Inr Some show ?thesis by (simp add: windowsProcessInfo_def try_catch_def)
  qed
qed

lemma getStreamProcessInfo_by_pid_throws:
  assumes "platform e = Win32" and "\<forall>c. by_pid c \<longrightarrow> (\<exists>x. probe e w c = Inl x)"
  shows "getStreamProcessInfo e w i = Inr not_running"
  using assms(1)
  by (simp add: getStreamProcessInfo_def windowsProcessInfo_by_pid_throws [OF assms(2)]
      split: option.splits)
     (simp add: try_catch_def)

lemma unix_caught:
  assumes "\<And>info. ffmpegStats e w i info = Inl x"
  shows "try_catch (unixProcessInfo e w stream i) (\<lambda>x. Inr not_running) = Inr not_running"
  by (simp add: unixProcessInfo_def try_catch_def Let_def assms split: sum.splits)

lemma windows_caught:
  assumes "\<And>info. ffmpegStats e w i info = Inl x"
  shows "try_catch (windowsProcessInfo e w stream i) (\<lambda>x. Inr not_running) = Inr not_running"
  by (simp add: windowsProcessInfo_def try_catch_def Let_def assms split: sum.splits option.splits)

lemma getStreamProcessInfo_read_throws:
  assumes "logs w i \<noteq> None" and "read_throws e (logPath e i) = Some x"
  shows "getStreamProcessInfo e w i = Inr not_running"
proof -
  have f: "ffmpegStats e w i info = Inl x" for info
    using assms by (simp add: ffmpegStats_def readLogFile_def)
  show ?thesis
    by (simp add: getStreamProcessInfo_def unix_caught [OF f] windows_caught [OF f] split: option.splits)
       (simp add: try_catch_def)
qed

lemma getStreamProcessInfo_procInfo_throws:
  assumes "platform e = Win32" and "getStreamById e w i = Some stream"
    and "probe e w (findCmd e stream) = Inr out" and "pid_in e out = Some found"
    and "probe e w (procInfoCmd found) = Inl x"
  shows "getStreamProcessInfo e w i = Inr not_running"
proof -
  have "windowsProcessInfo e w stream i = Inl x"
    using assms by (simp add: findCmd_def pid_in_def procInfoCmd_def windowsProcessInfo_def)
  then show ?thesis
    using assms(1,2) by (simp add: getStreamProcessInfo_def try_catch_def)
qed

lemma getStreamProcessInfo_creation_throws:
  assumes "platform e = Win32" and "getStreamById e w i = Some stream"
    and "probe e w (findCmd e stream) = Inr out" and "pid_in e out = Some found"
    and "probe e w (procInfoCmd found) = Inr procInfo"
    and "search digits_to_end_at procInfo = Some cpuTimeText"
    and "probe e w (creationCmd found) = Inl x"
  shows "getStreamProcessInfo e w i = Inr not_running"
proof -
  have "windowsProcessInfo e w stream i = Inl x"
    using assms
    by (simp add: findCmd_def pid_in_def procInfoCmd_def creationCmd_def windowsProcessInfo_def)
  then show ?thesis
    using assms(1,2) by (simp add: getStreamProcessInfo_def try_catch_def)
qed

text \<open>The two Windows hosts where one command about the process found throws.\<close>

lemma win_found_pid:
  "search digits_to_eol_at ''ffmpeg -i http://src/live?ch=1 -f flv rtmp://out/app  4242''
     = Some ''4242''"
  by code_simp

lemma win_cpu_time: "search digits_to_end_at ''50000000  1048576'' = Some ''1048576''"
  by code_simp

lemma win_found_facts:
  "platform env_win_found = Win32"
  "getStreamById env_win_found ex_running ''s1'' = Some ex_stream"
  "probe env_win_found ex_running (findCmd env_win_found ex_stream)
     = Inr ''ffmpeg -i http://src/live?ch=1 -f flv rtmp://out/app  4242''"
  "pid_in env_win_found ''ffmpeg -i http://src/live?ch=1 -f flv rtmp://out/app  4242''
     = Some ''4242''"
  "throws env_win_found ex_running (procInfoCmd ''4242'')"
  by (simp_all add: env_win_found_def env_kill_fails_def getStreamById_def getAllStreams_def
      ex_running_def ex_stream_def probe_def findCmd_def pid_in_def win_found_pid throws_def
      procInfoCmd_def wmicFindCmd_def quoted_def
      del: search.simps)

lemma win_no_date_facts:
  "platform env_win_no_date = Win32"
  "getStreamById env_win_no_date ex_running ''s1'' = Some ex_stream"
  "probe env_win_no_date ex_running (findCmd env_win_no_date ex_stream)
     = Inr ''ffmpeg -i http://src/live?ch=1 -f flv rtmp://out/app  4242''"
  "pid_in env_win_no_date ''ffmpeg -i http://src/live?ch=1 -f flv rtmp://out/app  4242''
     = Some ''4242''"
  "probe env_win_no_date ex_running (procInfoCmd ''4242'') = Inr ''50000000  1048576''"
  "throws env_win_no_date ex_running (creationCmd ''4242'')"
  by (simp_all add: env_win_no_date_def env_kill_fails_def getStreamById_def getAllStreams_def
      ex_running_def ex_stream_def probe_def findCmd_def pid_in_def win_found_pid throws_def
      procInfoCmd_def creationCmd_def wmicFindCmd_def quoted_def
      del: search.simps)

lemma getSystemStats_probe_throws:
  assumes "platform e \<noteq> OtherPlatform" and "getSystemStats e w = Inr s"
  shows "probe e w (cpuCmd e) = Inl x \<Longrightarrow> s = zero_stats"
    and "probe e w (memCmd e) = Inl x \<Longrightarrow> memory s = zero_usage"
    and "probe e w (memCmd e) = Inl x \<or> probe e w (diskCmd e) = Inl x \<Longrightarrow> disk s = zero_usage"
    and "probe e w (memCmd e) = Inl x \<or> probe e w (diskCmd e) = Inl x \<Longrightarrow> uptime s = []"
    and "platform e = Win32 \<Longrightarrow> probe e w uptimeCmd = Inl x \<Longrightarrow> uptime s = []"
proof -
  show "probe e w (cpuCmd e) = Inl x \<Longrightarrow> s = zero_stats"
    using assms getSystemStats_shape [OF assms(1), of w]
      windowsStats_throws(1) [of e w x] unixStats_throws(1) [of e w x]
    by (cases "platform e") (auto simp: stats_of_unset)
  show "probe e w (memCmd e) = Inl x \<Longrightarrow> memory s = zero_usage"
    using assms getSystemStats_shape [OF assms(1), of w]
      windowsStats_throws(2) [of e w x] unixStats_throws(2) [of e w x]
    by (cases "platform e") (auto simp: stats_of_unset)
  show "probe e w (memCmd e) = Inl x \<or> probe e w (diskCmd e) = Inl x \<Longrightarrow> disk s = zero_usage"
    using assms getSystemStats_shape [OF assms(1), of w]
      windowsStats_throws(3) [of e w x] unixStats_throws(3) [of e w x]
    by (cases "platform e") (auto simp: stats_of_unset)
  show "probe e w (memCmd e) = Inl x \<or> probe e w (diskCmd e) = Inl x \<Longrightarrow> uptime s = []"
    using assms getSystemStats_shape [OF assms(1), of w]
      windowsStats_throws(4) [of e w x] unixStats_throws(4) [of e w x]
    by (cases "platform e") (auto simp: stats_of_unset)
  show "platform e = Win32 \<Longrightarrow> probe e w uptimeCmd = Inl x \<Longrightarrow> uptime s = []"
    using assms getSystemStats_shape [OF assms(1), of w] windowsStats_throws(4) [of e w x]
    by (auto simp: stats_of_unset)
qed

text \<open>The host where only \<^verbatim>\<open>df\<close> fails, step by step.\<close>

lemma df_fails_cpu:
  "unixCpu env_df_fails ex_running initial_vars = Inr (initial_vars\<lparr>v_cpu := ''12.5 %''\<rparr>)"
proof -
  have "search cpu_user_at ''%Cpu(s): 12.5% user'' = Some ''12.5''" by code_simp
  then show ?thesis by (simp add: unixCpu_def probe_def env_df_fails_def)
qed

lemma df_fails_memory:
  "unixMemory env_df_fails ex_running v
     = Inr (v\<lparr>memTotal := 8000, memUsed := 2000, memFree := 6000\<rparr>)"
proof -
  have "search mem_line_at ''Mem: 8000 2000 6000'' = Some (''8000'', ''2000'', ''6000'')"
    by code_simp
  moreover have "dec ''8000'' = 8000" "dec ''2000'' = 2000" "dec ''6000'' = 6000" by code_simp+
  ultimately show ?thesis by (simp add: unixMemory_def probe_def env_df_fails_def)
qed

lemma df_fails_disk:
  "unixDisk env_df_fails ex_running v = Inl (Exn ''Error: Command failed: df -h /'', v)"
  by (simp add: unixDisk_def probe_def env_df_fails_def)

lemma df_fails_stats:
  "getSystemStats env_df_fails ex_running
     = Inr \<lparr>cpu = ''12.5 %'', memory = \<lparr>total' = 8000, used = 2000, free = 6000, percent = 25\<rparr>,
            disk = zero_usage, uptime = []\<rparr>"
proof -
  have "swallow (unixStats env_df_fails ex_running initial_vars)
          = initial_vars\<lparr>v_cpu := ''12.5 %'', memTotal := 8000, memUsed := 2000, memFree := 6000\<rparr>"
    by (simp add: unixStats_def and_then_def swallow_def df_fails_cpu df_fails_memory df_fails_disk)
  moreover have "platform env_df_fails = Linux" by (simp add: env_df_fails_def)
  ultimately show ?thesis
    by (simp add: getSystemStats_def try_catch_def stats_of_def initial_vars_def zero_usage_def)
qed

text \<open>
  C8.  When an OS probe fails, the statistics operations return a placeholder instead of
  propagating the error.  Neither operation ever throws.  On the platforms whose system
  statistics come from shell commands, a throwing command leaves what it and the
  commands after it would have measured at the zeroed initial values: everything when
  the CPU command throws, memory, disk and uptime when the memory command throws, disk
  and uptime when the disk command throws, the uptime when the Windows uptime command
  throws.  The process metrics are \<^verbatim>\<open>{ running: false }\<close> when the command that looks
  the process up throws, when on Windows either command asking about the process found
  throws (the one for its memory and CPU time, or the one for its creation date, run
  when a CPU time was read), and when the read of the stream's log throws.
\<close>

theorem stats_probe_failure_gives_placeholder:
  "(\<exists>s. getSystemStats e w = Inr s) \<and>
   (\<exists>r. getStreamProcessInfo e w i = Inr r) \<and>
   (platform e \<noteq> OtherPlatform \<and> getSystemStats e w = Inr s \<longrightarrow>
      (throws e w (cpuCmd e) \<longrightarrow> s = zero_stats) \<and>
      (throws e w (memCmd e) \<longrightarrow>
         memory s = zero_usage \<and> disk s = zero_usage \<and> uptime s = []) \<and>
      (throws e w (diskCmd e) \<longrightarrow> disk s = zero_usage \<and> uptime s = []) \<and>
      (platform e = Win32 \<and> throws e w uptimeCmd \<longrightarrow> uptime s = [])) \<and>
   (getStreamById e w i = Some stream \<and> throws e w (findCmd e stream)
      \<longrightarrow> getStreamProcessInfo e w i = Inr not_running) \<and>
   (platform e = Win32 \<and> (\<forall>c. by_pid c \<longrightarrow> throws e w c)
      \<longrightarrow> getStreamProcessInfo e w i = Inr not_running) \<and>
   (logs w i \<noteq> None \<and> read_throws e (logPath e i) \<noteq> None
      \<longrightarrow> getStreamProcessInfo e w i = Inr not_running) \<and>
   (platform e = Win32 \<and> getStreamById e w i = Some stream \<and>
      probe e w (findCmd e stream) = Inr out \<and> pid_in e out = Some found \<and>
      throws e w (procInfoCmd found)
      \<longrightarrow> getStreamProcessInfo e w i = Inr not_running) \<and>
   (platform e = Win32 \<and> getStreamById e w i = Some stream \<and>
      probe e w (findCmd e stream) = Inr out \<and> pid_in e out = Some found \<and>
      probe e w (procInfoCmd found) = Inr procInfo \<and>
      search digits_to_end_at procInfo \<noteq> None \<and> throws e w (creationCmd found)
      \<longrightarrow> getStreamProcessInfo e w i = Inr not_running)"
proof (intro conjI impI)
  show "\<exists>s. getSystemStats e w = Inr s" by (rule getSystemStats_total)
  show "\<exists>r. getStreamProcessInfo e w i = Inr r" by (rule getStreamProcessInfo_total)
next
  assume "platform e = Win32 \<and> getStreamById e w i = Some stream \<and>
      probe e w (findCmd e stream) = Inr out \<and> pid_in e out = Some found \<and>
      throws e w (procInfoCmd found)"
  then show "getStreamProcessInfo e w i = Inr not_running"
    using getStreamProcessInfo_procInfo_throws [of e w i stream out found]
    by (auto simp: throws_def)
next
  assume "platform e = Win32 \<and> getStreamById e w i = Some stream \<and>
      probe e w (findCmd e stream) = Inr out \<and> pid_in e out = Some found \<and>
      probe e w (procInfoCmd found) = Inr procInfo \<and>
      search digits_to_end_at procInfo \<noteq> None \<and> throws e w (creationCmd found)"
  then show "getStreamProcessInfo e w i = Inr not_running"
    using getStreamProcessInfo_creation_throws [of e w i stream out found procInfo]
    by (auto simp: throws_def)
next
  assume "logs w i \<noteq> None \<and> read_throws e (logPath e i) \<noteq> None"
  then show "getStreamProcessInfo e w i = Inr not_running"
    using getStreamProcessInfo_read_throws [of w i e] by auto
next
  assume "platform e = Win32 \<and> (\<forall>c. by_pid c \<longrightarrow> throws e w c)"
  then show "getStreamProcessInfo e w i = Inr not_running"
    using getStreamProcessInfo_by_pid_throws [of e w i] by (simp add: throws_def)
next
  assume "getStreamById e w i = Some stream \<and> throws e w (findCmd e stream)"
  then show "getStreamProcessInfo e w i = Inr not_running"
    using getStreamProcessInfo_probe_throws [of e w i stream] by (auto simp: throws_def)
next
  assume a: "platform e \<noteq> OtherPlatform \<and> getSystemStats e w = Inr s"
  note g = getSystemStats_probe_throws [of e w s]
  show "throws e w (cpuCmd e) \<Longrightarrow> s = zero_stats"
    using a g(1) by (auto simp: throws_def)
  show "throws e w (memCmd e) \<Longrightarrow> memory s = zero_usage"
    using a g(2) by (auto simp: throws_def)
  show "throws e w (memCmd e) \<Longrightarrow> disk s = zero_usage"
    using a g(3) by (auto simp: throws_def)
  show "throws e w (memCmd e) \<Longrightarrow> uptime s = []"
    using a g(4) by (auto simp: throws_def)
  show "throws e w (diskCmd e) \<Longrightarrow> disk s = zero_usage"
    using a g(3) by (auto simp: throws_def)
  show "throws e w (diskCmd e) \<Longrightarrow> uptime s = []"
    using a g(4) by (auto simp: throws_def)
  show "platform e = Win32 \<and> throws e w uptimeCmd \<Longrightarrow> uptime s = []"
    using a g(5) by (auto simp: throws_def)
qed

theorem stats_probe_failure_gives_placeholder_witness:
  "platform env_df_fails \<noteq> OtherPlatform \<and>
   throws env_df_fails ex_running (diskCmd env_df_fails) \<and>
   getSystemStats env_df_fails ex_running
     = Inr \<lparr>cpu = ''12.5 %'', memory = \<lparr>total' = 8000, used = 2000, free = 6000, percent = 25\<rparr>,
            disk = zero_usage, uptime = []\<rparr> \<and>
   throws env_kill_fails ex_running (cpuCmd env_kill_fails) \<and>
   throws env_kill_fails ex_running (memCmd env_kill_fails) \<and>
   getSystemStats env_kill_fails ex_running = Inr zero_stats \<and>
   platform (env_kill_fails\<lparr>platform := Win32\<rparr>) = Win32 \<and>
   throws (env_kill_fails\<lparr>platform := Win32\<rparr>) ex_running uptimeCmd \<and>
   throws (env_kill_fails\<lparr>platform := Win32\<rparr>) ex_running
     (''wmic process where processid=4242 get creationdate'') \<and>
   getSystemStats (env_kill_fails\<lparr>platform := Win32\<rparr>) ex_running = Inr zero_stats \<and>
   getStreamProcessInfo (env_kill_fails\<lparr>platform := Win32\<rparr>) ex_running ''s1'' = Inr not_running \<and>
   getStreamById env_kill_fails ex_running ''s1'' = Some ex_stream \<and>
   throws env_kill_fails ex_running (findCmd env_kill_fails ex_stream) \<and>
   getStreamProcessInfo env_kill_fails ex_running ''s1'' = Inr not_running \<and>
   logs ex_two_logged ''a'' \<noteq> None \<and>
   read_throws env_log_unreadable (logPath env_log_unreadable ''a'') \<noteq> None \<and>
   getStreamProcessInfo env_log_unreadable ex_two_logged ''a'' = Inr not_running \<and>
   probe env_win_found ex_running (findCmd env_win_found ex_stream)
     = Inr ''ffmpeg -i http://src/live?ch=1 -f flv rtmp://out/app  4242'' \<and>
   throws env_win_found ex_running (procInfoCmd ''4242'') \<and>
   getStreamProcessInfo env_win_found ex_running ''s1'' = Inr not_running \<and>
   probe env_win_no_date ex_running (procInfoCmd ''4242'') = Inr ''50000000  1048576'' \<and>
   throws env_win_no_date ex_running (creationCmd ''4242'') \<and>
   getStreamProcessInfo env_win_no_date ex_running ''s1'' = Inr not_running"
proof -
  let ?win = "env_kill_fails\<lparr>platform := Win32\<rparr>"
  have p: "throws env_kill_fails ex_running c" "throws ?win ex_running c" for c
    by (simp_all add: throws_def probe_def env_kill_fails_def)
  have d: "platform env_df_fails \<noteq> OtherPlatform"
      "throws env_df_fails ex_running (diskCmd env_df_fails)"
    by (simp_all add: throws_def probe_def env_df_fails_def diskCmd_def)
  note sd = df_fails_stats
  have h: "platform env_kill_fails \<noteq> OtherPlatform" "platform ?win = Win32"
      "getStreamById env_kill_fails ex_running ''s1'' = Some ex_stream"
      "logs ex_two_logged ''a'' \<noteq> None"
      "read_throws env_log_unreadable (logPath env_log_unreadable ''a'') \<noteq> None"
    by (simp_all add: env_kill_fails_def getStreamById_def getAllStreams_def ex_running_def
        ex_stream_def ex_two_logged_def env_log_unreadable_def env_two_def logPath_def path_join_def)
  obtain s1 where s1: "getSystemStats env_kill_fails ex_running = Inr s1"
    using getSystemStats_total by blast
  obtain s2 where s2: "getSystemStats ?win ex_running = Inr s2"
    using getSystemStats_total by blast
  note t = stats_probe_failure_gives_placeholder
  from t [of env_df_fails ex_running "''s1''"
            "\<lparr>cpu = ''12.5 %'', memory = \<lparr>total' = 8000, used = 2000, free = 6000, percent = 25\<rparr>,
              disk = zero_usage, uptime = []\<rparr>"] d sd
  have c1: "disk \<lparr>cpu = ''12.5 %'', memory = \<lparr>total' = 8000, used = 2000, free = 6000, percent = 25\<rparr>,
              disk = zero_usage, uptime = []\<rparr> = zero_usage" by simp
  from t [of env_kill_fails ex_running "''s1''" s1 ex_stream] h s1 p(1)
  have c2: "getSystemStats env_kill_fails ex_running = Inr zero_stats"
      "getStreamProcessInfo env_kill_fails ex_running ''s1'' = Inr not_running"
    by simp_all
  from t [of ?win ex_running "''s1''" s2] h s2 p(2)
  have c4: "getSystemStats ?win ex_running = Inr zero_stats"
      "getStreamProcessInfo ?win ex_running ''s1'' = Inr not_running"
    by simp_all
  from t [of env_log_unreadable ex_two_logged "''a''"] h
  have c5: "getStreamProcessInfo env_log_unreadable ex_two_logged ''a'' = Inr not_running" by simp
  note f = win_found_facts and g = win_no_date_facts
  have n: "search digits_to_end_at ''50000000  1048576'' \<noteq> None"
    by (simp only: win_cpu_time) simp
  from t [of env_win_found ex_running "''s1''" _ ex_stream
            "''ffmpeg -i http://src/live?ch=1 -f flv rtmp://out/app  4242''" "''4242''"] f
  have c6: "getStreamProcessInfo env_win_found ex_running ''s1'' = Inr not_running" by simp
  from t [of env_win_no_date ex_running "''s1''" _ ex_stream
            "''ffmpeg -i http://src/live?ch=1 -f flv rtmp://out/app  4242''" "''4242''"
            "''50000000  1048576''"] g n
  have c7: "getStreamProcessInfo env_win_no_date ex_running ''s1'' = Inr not_running" by simp
  show ?thesis
    using d sd p c1 c2 c4 c5 c6 c7 h f(3,5) g(5,6) by simp
qed

subsection \<open>Where the process metrics come from\<close>

lemma ffmpegStats_keeps:
  assumes "ffmpegStats e w i info = Inr r"
  shows "running r = running info" and "p_pid r = p_pid info" and "p_cpu r = p_cpu info"
    and "p_memory r = p_memory info" and "p_runtime r = p_runtime info"
  using assms
  by (auto simp: ffmpegStats_def Let_def split: if_splits sum.splits option.splits)

lemma unixProcessInfo_pid:
  assumes "unixProcessInfo e w stream i = Inr r" and "running r"
  shows "\<exists>out. probe e w (psGrepCmd stream) = Inr out \<and>
               p_pid r = nth_opt (first_line_parts out) 1 \<and>
               p_cpu r = Some (in_template (nth_opt (first_line_parts out) 2) @ ''%'') \<and>
               p_memory r = Some (rounded_MB (parseInt (nth_opt (first_line_parts out) 5)) 1024)"
proof (cases "probe e w (psGrepCmd stream)")
  case (Inl x)
  with assms(1) show ?thesis by (simp add: unixProcessInfo_def)
next
  case (Inr out)
  show ?thesis
  proof (cases "0 < length (split_on (CHR 0x0A) (trim out))")
    case True
    with assms(1) Inr show ?thesis
      by (auto simp: unixProcessInfo_def Let_def first_line_parts_def dest: ffmpegStats_keeps(2,3,4))
  next
    case False
    with assms Inr show ?thesis
      by (auto simp: unixProcessInfo_def Let_def not_running_def)
  qed
qed

lemma windowsProcessInfo_pid:
  assumes "windowsProcessInfo e w stream i = Inr r" and "running r"
  shows "\<exists>out. probe e w (wmicFindCmd stream) = Inr out \<and> p_pid r = search digits_to_eol_at out"
proof (cases "probe e w (wmicFindCmd stream)")
  case (Inl x)
  with assms(1) show ?thesis by (simp add: windowsProcessInfo_def)
next
  case (Inr out)
  show ?thesis
  proof (cases "search digits_to_eol_at out")
    case None
    with assms Inr show ?thesis by (auto simp: windowsProcessInfo_def not_running_def)
  next
    case (Some found)
    have "p_pid r = Some found"
      using assms(1) Inr Some
      by (auto simp: windowsProcessInfo_def Let_def cpuAndRuntime_def
          split: sum.splits option.splits if_splits dest!: ffmpegStats_keeps(2))
    with Inr Some show ?thesis by simp
  qed
qed

lemma getStreamById_pid_rewritten:
  "getStreamById e (w\<lparr>streams := map (\<lambda>s. s\<lparr>pid := f s\<rparr>) (streams w)\<rparr>) i
     = map_option (\<lambda>s. s\<lparr>pid := f s\<rparr>) (getStreamById e w i)"
proof -
  have "find (\<lambda>s. id_str s = i) (map (\<lambda>s. s\<lparr>pid := f s\<rparr>) xs)
          = map_option (\<lambda>s. s\<lparr>pid := f s\<rparr>) (find (\<lambda>s. id_str s = i) xs)" for xs
    by (induction xs) simp_all
  then show ?thesis by (simp add: getStreamById_def getAllStreams_def split: option.splits)
qed

lemma branches_ignore_pid:
  "unixProcessInfo e (w\<lparr>streams := ss\<rparr>) (stream\<lparr>pid := v\<rparr>) i = unixProcessInfo e w stream i"
  "windowsProcessInfo e (w\<lparr>streams := ss\<rparr>) (stream\<lparr>pid := v\<rparr>) i = windowsProcessInfo e w stream i"
proof -
  have "readLogFile e (w\<lparr>streams := ss\<rparr>) i = readLogFile e w i"
    by (auto simp: readLogFile_def split: option.splits)
  then have f: "ffmpegStats e (w\<lparr>streams := ss\<rparr>) i info = ffmpegStats e w i info" for info
    by (simp add: ffmpegStats_def)
  have p: "probe e (w\<lparr>streams := ss\<rparr>) c = probe e w c" for c
    by (simp add: probe_def)
  have c: "cpuAndRuntime e (w\<lparr>streams := ss\<rparr>) a b info = cpuAndRuntime e w a b info" for a b info
    by (simp add: cpuAndRuntime_def)
  show "unixProcessInfo e (w\<lparr>streams := ss\<rparr>) (stream\<lparr>pid := v\<rparr>) i = unixProcessInfo e w stream i"
    unfolding unixProcessInfo_def psGrepCmd_def f p by simp
  show "windowsProcessInfo e (w\<lparr>streams := ss\<rparr>) (stream\<lparr>pid := v\<rparr>) i = windowsProcessInfo e w stream i"
    unfolding windowsProcessInfo_def wmicFindCmd_def f p c by simp
qed

text \<open>
  C6 as stated fails: the sample operation takes the PID from the process list matched
  against the input URL.  In \<open>ex_two\<close> no PID is recorded for stream \<open>a\<close>, and the
  operation runs \<^verbatim>\<open>ps aux | grep "http://src/ch1" | grep -v grep\<close>, whose first line is
  the process of stream \<open>b\<close> (its URL holds that of \<open>a\<close>); the metrics reported for
  \<open>a\<close> are the PID 200, the CPU share and the memory of the process of \<open>b\<close>.
\<close>

theorem getStreamProcessInfo_matches_url_counterexample:
  "getStreamById env_two ex_two ''a'' = Some stream_a \<and> active stream_a \<and> pid stream_a = None \<and>
   probe env_two ex_two (''ps aux | grep '' @ quoted (link1 stream_a) @ '' | grep -v grep'')
     = Inr (ps_line_b @ [CHR 0x0A] @ ps_line_a @ [CHR 0x0A]) \<and>
   getStreamProcessInfo env_two ex_two ''a''
     = Inr \<lparr>running = True, p_pid = Some ''200'', p_cpu = Some ''1.5%'', p_memory = Some ''20 MB'',
            p_runtime = Some ''0:05'', p_bitrate = Some ''N/A'', p_fps = Some ''N/A''\<rparr>"
  by code_simp

text \<open>
  C6, amended.  For every active stream, the sample operation finds the process by
  matching the stream's input URL against the system-wide process list: whenever it
  reports a running process, the PID is read off the output of
  \<^verbatim>\<open>ps aux | grep "<url>" | grep -v grep\<close> on Linux and macOS (the second field of
  the first line, whose third and sixth fields give the CPU share and the memory), and
  of \<^verbatim>\<open>wmic process where "commandline like '%<url>%'"\<close> on Windows.  The PID
  recorded in the stream is never read: the result is the same whatever it is.
\<close>

theorem getStreamProcessInfo_by_url_match:
  "(getStreamProcessInfo e w i = Inr r \<and> running r \<longrightarrow>
      (\<exists>stream out. getStreamById e w i = Some stream \<and> active stream \<and>
         probe e w (findCmd e stream) = Inr out \<and> p_pid r = pid_in e out \<and>
         (platform e \<noteq> Win32 \<longrightarrow>
            p_cpu r = Some (in_template (nth_opt (first_line_parts out) 2) @ ''%'') \<and>
            p_memory r = Some (rounded_MB (parseInt (nth_opt (first_line_parts out) 5)) 1024)))) \<and>
   getStreamProcessInfo e (w\<lparr>streams := map (\<lambda>s. s\<lparr>pid := f s\<rparr>) (streams w)\<rparr>) i
     = getStreamProcessInfo e w i"
proof (intro conjI impI)
  assume a: "getStreamProcessInfo e w i = Inr r \<and> running r"
  then obtain stream where s: "getStreamById e w i = Some stream" "active stream"
    by (auto simp: getStreamProcessInfo_def not_running_def split: option.splits if_splits)
  show "\<exists>stream out. getStreamById e w i = Some stream \<and> active stream \<and>
          probe e w (findCmd e stream) = Inr out \<and> p_pid r = pid_in e out \<and>
          (platform e \<noteq> Win32 \<longrightarrow>
             p_cpu r = Some (in_template (nth_opt (first_line_parts out) 2) @ ''%'') \<and>
             p_memory r = Some (rounded_MB (parseInt (nth_opt (first_line_parts out) 5)) 1024))"
  proof (cases "platform e = Win32")
    case True
    with a s have "windowsProcessInfo e w stream i = Inr r"
      by (auto simp: getStreamProcessInfo_def try_catch_def not_running_def split: sum.splits)
    from windowsProcessInfo_pid [OF this] a s True show ?thesis
      by (auto simp: findCmd_def pid_in_def)
  next
    case False
    with a s have "unixProcessInfo e w stream i = Inr r"
      by (auto simp: getStreamProcessInfo_def try_catch_def not_running_def split: sum.splits)
    from unixProcessInfo_pid [OF this] a s False show ?thesis
      by (auto simp: findCmd_def pid_in_def)
  qed
next
  show "getStreamProcessInfo e (w\<lparr>streams := map (\<lambda>s. s\<lparr>pid := f s\<rparr>) (streams w)\<rparr>) i
          = getStreamProcessInfo e w i"
    by (cases "getStreamById e w i")
       (simp_all add: getStreamProcessInfo_def getStreamById_pid_rewritten branches_ignore_pid)
qed

theorem getStreamProcessInfo_by_url_match_witness:
  "getStreamProcessInfo env_two ex_two ''b''
     = Inr \<lparr>running = True, p_pid = Some ''200'', p_cpu = Some ''1.5%'', p_memory = Some ''20 MB'',
            p_runtime = Some ''0:05'', p_bitrate = Some ''N/A'', p_fps = Some ''N/A''\<rparr> \<and>
   getStreamById env_two ex_two ''b'' = Some stream_b \<and> active stream_b \<and>
   probe env_two ex_two (findCmd env_two stream_b) = Inr (ps_line_b @ [CHR 0x0A]) \<and>
   pid_in env_two (ps_line_b @ [CHR 0x0A]) = Some ''200'' \<and>
   getStreamProcessInfo env_two (ex_two\<lparr>streams := map (\<lambda>s. s\<lparr>pid := Some ''4711''\<rparr>) (streams ex_two)\<rparr>) ''b''
     = getStreamProcessInfo env_two ex_two ''b''"
proof -
  have r: "getStreamProcessInfo env_two ex_two ''b''
     = Inr \<lparr>running = True, p_pid = Some ''200'', p_cpu = Some ''1.5%'', p_memory = Some ''20 MB'',
            p_runtime = Some ''0:05'', p_bitrate = Some ''N/A'', p_fps = Some ''N/A''\<rparr>"
    by code_simp
  have h: "getStreamById env_two ex_two ''b'' = Some stream_b" "active stream_b"
      "probe env_two ex_two (findCmd env_two stream_b) = Inr (ps_line_b @ [CHR 0x0A])"
      "pid_in env_two (ps_line_b @ [CHR 0x0A]) = Some ''200''"
    by code_simp+
  from getStreamProcessInfo_by_url_match
         [of env_two ex_two "''b''" _ "\<lambda>s. Some ''4711''"] r h
  show ?thesis by simp
qed

end
